theory Spec2Isabelle
  imports Complex_Main "HOL-Library.AList"
begin

section \<open>Values, remote results and exceptions\<close>

text \<open>
  The module \<^verbatim>\<open>spotify_actions.py\<close> works on values decoded from JSON: parameters,
  step outcomes, the execution context and the final response are Python dictionaries
  with string keys. A dictionary is an association list; \<^verbatim>\<open>d[k] = v\<close> replaces the entry
  in place or appends it, as \<open>AList.update\<close> does. A float is represented by its
  rational value; only its truth value is ever inspected.
\<close>

datatype json =
    JNull
  | JBool bool
  | JInt int
  | JFloat rat
  | JStr string
  | JArr "json list"
  | JObj "(string \<times> json) list"

type_synonym dict = "(string \<times> json) list"

text \<open>
  Exceptions are the instances of Python's \<^verbatim>\<open>Exception\<close>: a class and the text
  that \<^verbatim>\<open>str(e)\<close> yields. Texts of exceptions raised by the interpreter follow
  CPython's wording, as of version 3.11.
\<close>

datatype exn_class =
  KeyError | IndexError | TypeError | AttributeError | JSONDecodeError | OtherError

datatype exn = Exn exn_class string

fun str_of_exn :: "exn \<Rightarrow> string" where
  "str_of_exn (Exn c m) = m"

text \<open>
  An element of a result's \<^verbatim>\<open>content\<close> either has a \<^verbatim>\<open>text\<close> attribute or has none
  (\<^verbatim>\<open>hasattr(msg, 'text')\<close>).
\<close>

datatype content_item = TextContent string | OtherContent

record remote_result =
  isError :: bool
  content :: "content_item list"

text \<open>
  What the run does to the outside world is a trace of events: each
  \<^verbatim>\<open>session.call_tool(tool_name, params)\<close> with the parameters as they are at that
  moment, and each \<^verbatim>\<open>asyncio.sleep(seconds)\<close>. A session answers a call with a
  result or raises; its answer may depend on everything that happened before.
\<close>

datatype event = Call string dict | Sleep int

type_synonym session = "event list \<Rightarrow> string \<Rightarrow> dict \<Rightarrow> exn + remote_result"

text \<open>
  Two library functions are parameters of the model: \<^verbatim>\<open>json.loads\<close> (\<open>Inl\<close> carries
  the text of the \<^verbatim>\<open>JSONDecodeError\<close>) and \<^verbatim>\<open>str\<close> on floats, lists and
  dictionaries.
\<close>

record pylib =
  json_loads :: "string \<Rightarrow> string + json"
  str_other :: "json \<Rightarrow> string"

definition MAX_RETRIES :: int where
  "MAX_RETRIES = 3"

definition RETRY_DELAY :: int where
  "RETRY_DELAY = 1"

section \<open>Python's operations on decoded values\<close>

definition bind :: "exn + 'a \<Rightarrow> ('a \<Rightarrow> exn + 'b) \<Rightarrow> exn + 'b" where
  "bind m f = (case m of Inl e \<Rightarrow> Inl e | Inr x \<Rightarrow> f x)"

definition except :: "exn_class list \<Rightarrow> exn + 'a \<Rightarrow> (exn + 'a) \<Rightarrow> exn + 'a" where
  "except cs m h =
     (case m of
        Inl (Exn c msg) \<Rightarrow> if c \<in> set cs then h else Inl (Exn c msg)
      | Inr x \<Rightarrow> Inr x)"

definition except_Exception :: "exn + 'a \<Rightarrow> (exn + 'a) \<Rightarrow> exn + 'a" where
  "except_Exception m h = (case m of Inl e \<Rightarrow> h | Inr x \<Rightarrow> Inr x)"

fun truthy :: "json \<Rightarrow> bool" where
  "truthy JNull = False"
| "truthy (JBool b) = b"
| "truthy (JInt i) = (i \<noteq> 0)"
| "truthy (JFloat q) = (q \<noteq> 0)"
| "truthy (JStr s) = (s \<noteq> [])"
| "truthy (JArr xs) = (xs \<noteq> [])"
| "truthy (JObj d) = (d \<noteq> [])"

fun type_name :: "json \<Rightarrow> string" where
  "type_name JNull = ''NoneType''"
| "type_name (JBool b) = ''bool''"
| "type_name (JInt i) = ''int''"
| "type_name (JFloat q) = ''float''"
| "type_name (JStr s) = ''str''"
| "type_name (JArr xs) = ''list''"
| "type_name (JObj d) = ''dict''"

definition quoted :: "string \<Rightarrow> string" where
  "quoted s = [CHR 0x27] @ s @ [CHR 0x27]"

fun show_nat :: "nat \<Rightarrow> string" where
  "show_nat n =
     (if n < 10 then [''0123456789'' ! n]
      else show_nat (n div 10) @ [''0123456789'' ! (n mod 10)])"

definition show_int :: "int \<Rightarrow> string" where
  "show_int i = (if i < 0 then ''-'' @ show_nat (nat (- i)) else show_nat (nat i))"

definition py_str :: "pylib \<Rightarrow> json \<Rightarrow> string" where
  "py_str L v =
     (case v of
        JStr s \<Rightarrow> s
      | JNull \<Rightarrow> ''None''
      | JBool b \<Rightarrow> (if b then ''True'' else ''False'')
      | JInt i \<Rightarrow> show_int i
      | _ \<Rightarrow> str_other L v)"

definition loads :: "pylib \<Rightarrow> string \<Rightarrow> exn + json" where
  "loads L s = (case json_loads L s of Inl m \<Rightarrow> Inl (Exn JSONDecodeError m) | Inr v \<Rightarrow> Inr v)"

text \<open>\<^verbatim>\<open>d.get(k)\<close> and \<^verbatim>\<open>d.get(k, default)\<close> on a dictionary.\<close>

definition dict_get :: "dict \<Rightarrow> string \<Rightarrow> json" where
  "dict_get d k = (case map_of d k of None \<Rightarrow> JNull | Some v \<Rightarrow> v)"

definition dict_get_default :: "dict \<Rightarrow> string \<Rightarrow> json \<Rightarrow> json" where
  "dict_get_default d k dflt = (case map_of d k of None \<Rightarrow> dflt | Some v \<Rightarrow> v)"

definition dict_set :: "dict \<Rightarrow> string \<Rightarrow> json \<Rightarrow> dict" where
  "dict_set d k v = AList.update k v d"

definition has_key :: "string \<Rightarrow> dict \<Rightarrow> bool" where
  "has_key k d = (map_of d k \<noteq> None)"

text \<open>The same on a value of unknown type: \<^verbatim>\<open>v.get(k)\<close>, \<^verbatim>\<open>v[k]\<close>, \<^verbatim>\<open>v[0]\<close>, \<^verbatim>\<open>k in v\<close>, \<^verbatim>\<open>len(v)\<close>.\<close>

definition no_attribute :: "json \<Rightarrow> string \<Rightarrow> exn" where
  "no_attribute v a =
     Exn AttributeError (quoted (type_name v) @ '' object has no attribute '' @ quoted a)"

definition py_get_default :: "json \<Rightarrow> string \<Rightarrow> json \<Rightarrow> exn + json" where
  "py_get_default v k dflt =
     (case v of JObj d \<Rightarrow> Inr (dict_get_default d k dflt) | _ \<Rightarrow> Inl (no_attribute v ''get''))"

definition py_get :: "json \<Rightarrow> string \<Rightarrow> exn + json" where
  "py_get v k = py_get_default v k JNull"

definition py_item :: "json \<Rightarrow> string \<Rightarrow> exn + json" where
  "py_item v k =
     (case v of
        JObj d \<Rightarrow> (case map_of d k of None \<Rightarrow> Inl (Exn KeyError (quoted k)) | Some x \<Rightarrow> Inr x)
      | JArr xs \<Rightarrow> Inl (Exn TypeError ''list indices must be integers or slices, not str'')
      | JStr s \<Rightarrow> Inl (Exn TypeError (''string indices must be integers, not '' @ quoted ''str''))
      | _ \<Rightarrow> Inl (Exn TypeError (quoted (type_name v) @ '' object is not subscriptable'')))"

definition py_first :: "json \<Rightarrow> exn + json" where
  "py_first v =
     (case v of
        JArr xs \<Rightarrow> (case xs of [] \<Rightarrow> Inl (Exn IndexError ''list index out of range'') | x # _ \<Rightarrow> Inr x)
      | JStr s \<Rightarrow> (case s of [] \<Rightarrow> Inl (Exn IndexError ''string index out of range'') | c # _ \<Rightarrow> Inr (JStr [c]))
      | JObj d \<Rightarrow> Inl (Exn KeyError ''0'')
      | _ \<Rightarrow> Inl (Exn TypeError (quoted (type_name v) @ '' object is not subscriptable'')))"

fun is_prefix :: "string \<Rightarrow> string \<Rightarrow> bool" where
  "is_prefix [] ys = True"
| "is_prefix (x # xs) [] = False"
| "is_prefix (x # xs) (y # ys) = (x = y \<and> is_prefix xs ys)"

fun is_substring :: "string \<Rightarrow> string \<Rightarrow> bool" where
  "is_substring xs [] = (xs = [])"
| "is_substring xs (y # ys) = (is_prefix xs (y # ys) \<or> is_substring xs ys)"

definition py_in :: "string \<Rightarrow> json \<Rightarrow> exn + bool" where
  "py_in k v =
     (case v of
        JObj d \<Rightarrow> Inr (has_key k d)
      | JArr xs \<Rightarrow> Inr (JStr k \<in> set xs)
      | JStr s \<Rightarrow> Inr (is_substring k s)
      | _ \<Rightarrow> Inl (Exn TypeError (''argument of type '' @ quoted (type_name v) @ '' is not iterable'')))"

definition py_len :: "json \<Rightarrow> exn + nat" where
  "py_len v =
     (case v of
        JObj d \<Rightarrow> Inr (length d)
      | JArr xs \<Rightarrow> Inr (length xs)
      | JStr s \<Rightarrow> Inr (length s)
      | _ \<Rightarrow> Inl (Exn TypeError (''object of type '' @ quoted (type_name v) @ '' has no len()'')))"

fun is_list :: "json \<Rightarrow> bool" where
  "is_list (JArr xs) = True"
| "is_list v = False"

text \<open>\<^verbatim>\<open>next((msg.text for msg in content if hasattr(msg, 'text')), default)\<close>\<close>

fun first_text :: "content_item list \<Rightarrow> string \<Rightarrow> string" where
  "first_text [] dflt = dflt"
| "first_text (TextContent t # ms) dflt = t"
| "first_text (OtherContent # ms) dflt = first_text ms dflt"

section \<open>The retrying invoker\<close>

text \<open>
  \<^verbatim>\<open>call_tool_with_retry\<close>: the loop runs while \<^verbatim>\<open>retries < max_retries\<close>. A call that
  answers returns at once; a call that raises counts one retry, re-raises when the
  bound is reached and otherwise sleeps \<^verbatim>\<open>RETRY_DELAY * (2 ** (retries - 1))\<close> seconds.
  When the loop is never entered the function falls off its end and returns \<^verbatim>\<open>None\<close>.
\<close>

function retry_loop ::
  "session \<Rightarrow> string \<Rightarrow> dict \<Rightarrow> int \<Rightarrow> int \<Rightarrow> event list \<Rightarrow> (exn + remote_result option) \<times> event list"
where
  "retry_loop ses tool_name params max_retries retries tr =
     (if retries < max_retries then
        (case ses tr tool_name params of
           Inr result \<Rightarrow> (Inr (Some result), tr @ [Call tool_name params])
         | Inl e \<Rightarrow>
             (if retries + 1 \<ge> max_retries then (Inl e, tr @ [Call tool_name params])
              else retry_loop ses tool_name params max_retries (retries + 1)
                     (tr @ [Call tool_name params, Sleep (RETRY_DELAY * 2 ^ nat (retries + 1 - 1))])))
      else (Inr None, tr))"
  by pat_completeness auto
termination
  by (relation "measure (\<lambda>(ses, tool_name, params, max_retries, retries, tr). nat (max_retries - retries))") auto

definition call_tool_with_retry ::
  "session \<Rightarrow> string \<Rightarrow> dict \<Rightarrow> int \<Rightarrow> event list \<Rightarrow> (exn + remote_result option) \<times> event list"
where
  "call_tool_with_retry ses tool_name params max_retries tr =
     retry_loop ses tool_name params max_retries 0 tr"

text \<open>
  The trace of \<open>k\<close> failed attempts that are each retried, the first of them being
  attempt number \<open>a + 1\<close>: after attempt number \<open>n\<close> comes a sleep of
  \<^verbatim>\<open>RETRY_DELAY * 2 ** (n - 1)\<close> seconds.
\<close>

fun backoff_trace :: "string \<Rightarrow> dict \<Rightarrow> nat \<Rightarrow> nat \<Rightarrow> event list" where
  "backoff_trace tool_name params a 0 = []"
| "backoff_trace tool_name params a (Suc k) =
     [Call tool_name params, Sleep (RETRY_DELAY * 2 ^ a)] @ backoff_trace tool_name params (Suc a) k"

section \<open>Action handlers\<close>

text \<open>
  A handler receives references to the action's parameter dictionary and to the
  execution context and may write to both; with the trace they form the frame a
  handler works on and hands back, whether it returns or raises.
\<close>

record frame =
  f_params :: dict
  f_context :: dict
  f_trace :: "event list"

definition error_outcome :: "string \<Rightarrow> dict" where
  "error_outcome m = [(''error'', JStr m)]"

subsection \<open>Search\<close>

text \<open>
  The artist of the chosen album or track (the same block in both branches): the first
  element of a list under \<^verbatim>\<open>artists\<close>, else the value under \<^verbatim>\<open>artist\<close>, else
  \<^verbatim>\<open>"Unknown Artist"\<close>.
\<close>

definition first_artist :: "json \<Rightarrow> exn + json" where
  "first_artist item =
     bind (py_in ''artists'' item) (\<lambda>present.
     bind (if present then bind (py_item item ''artists'') (\<lambda>a. Inr (is_list a)) else Inr False) (\<lambda>listed.
       if listed then bind (py_item item ''artists'') py_first
       else py_get_default item ''artist'' (JStr ''Unknown Artist'')))"

definition search_result_of :: "pylib \<Rightarrow> string \<Rightarrow> json \<Rightarrow> exn + json" where
  "search_result_of L kind item =
     bind (first_artist item) (\<lambda>artist.
     bind (py_item item ''name'') (\<lambda>name.
     bind (py_item item ''id'') (\<lambda>ident.
       Inr (JObj [(''name'', name),
                  (''uri'', JStr (''spotify:'' @ kind @ '':'' @ py_str L ident)),
                  (''id'', ident),
                  (''artist'', artist),
                  (''type'', JStr kind)]))))"

text \<open>The body of the \<^verbatim>\<open>try\<close> block of \<^verbatim>\<open>handle_search_action\<close>.\<close>

definition search_parse :: "pylib \<Rightarrow> dict \<Rightarrow> remote_result \<Rightarrow> exn + dict" where
  "search_parse L params result =
     bind (loads L (first_text (content result) ''{}'')) (\<lambda>result_data.
     bind (if dict_get params ''qtype'' = JStr ''album''
           then bind (py_get result_data ''albums'') (\<lambda>a. Inr (truthy a))
           else Inr False) (\<lambda>album_branch.
       if album_branch then
         bind (bind (py_item result_data ''albums'') py_first) (\<lambda>album.
         bind (search_result_of L ''album'' album) (\<lambda>search_result.
           Inr [(''action'', JStr ''search''), (''result'', search_result)]))
       else
         bind (py_get result_data ''tracks'') (\<lambda>tracks.
           if truthy tracks then
             bind (bind (py_item result_data ''tracks'') py_first) (\<lambda>track.
             bind (search_result_of L ''track'' track) (\<lambda>search_result.
               Inr [(''action'', JStr ''search''), (''result'', search_result)]))
           else
             Inr (error_outcome
                   (''No results found for query: '' @ py_str L (dict_get params ''query''))))))"

definition handle_search_action ::
  "pylib \<Rightarrow> session \<Rightarrow> dict \<Rightarrow> event list \<Rightarrow> (exn + dict) \<times> event list"
where
  "handle_search_action L ses params tr =
     (case call_tool_with_retry ses ''SpotifySearch'' params MAX_RETRIES tr of
        (Inl e, tr') \<Rightarrow> (Inl e, tr')
      | (Inr None, tr') \<Rightarrow> (Inr (error_outcome ''No search results found''), tr')
      | (Inr (Some result), tr') \<Rightarrow>
          if isError result then (Inr (error_outcome ''No search results found''), tr')
          else (except [JSONDecodeError, KeyError, IndexError]
                  (search_parse L params result)
                  (Inr (error_outcome ''Failed to parse search results'')), tr'))"

subsection \<open>The call made by the handlers that take a context\<close>

text \<open>
  \<^verbatim>\<open>result = await call_tool_with_retry(session, tool, params)\<close> followed by the
  first read of \<^verbatim>\<open>result.isError\<close>, which raises \<^verbatim>\<open>AttributeError\<close> on \<^verbatim>\<open>None\<close>.
\<close>

definition invoke :: "session \<Rightarrow> string \<Rightarrow> frame \<Rightarrow> (exn + remote_result) \<times> frame" where
  "invoke ses tool fr =
     (case call_tool_with_retry ses tool (f_params fr) MAX_RETRIES (f_trace fr) of
        (Inl e, tr') \<Rightarrow> (Inl e, fr\<lparr>f_trace := tr'\<rparr>)
      | (Inr None, tr') \<Rightarrow> (Inl (no_attribute JNull ''isError''), fr\<lparr>f_trace := tr'\<rparr>)
      | (Inr (Some result), tr') \<Rightarrow> (Inr result, fr\<lparr>f_trace := tr'\<rparr>))"

subsection \<open>GetInfo\<close>

definition get_info_parse :: "pylib \<Rightarrow> remote_result \<Rightarrow> dict \<Rightarrow> exn + dict \<times> dict" where
  "get_info_parse L result context =
     except [JSONDecodeError, KeyError]
       (bind (loads L (first_text (content result) ''{}'')) (\<lambda>album_data.
        bind (py_get_default album_data ''tracks'' (JArr [])) (\<lambda>album_tracks.
          if \<not> truthy album_tracks then Inr (error_outcome ''No tracks found in album'', context)
          else Inr ([(''action'', JStr ''get_info''), (''result'', album_data)],
                    dict_set context ''album_tracks'' album_tracks))))
       (Inr (error_outcome ''Failed to parse album information'', context))"

definition handle_get_info_action :: "pylib \<Rightarrow> session \<Rightarrow> frame \<Rightarrow> (exn + dict) \<times> frame" where
  "handle_get_info_action L ses fr =
     (let search_result = dict_get (f_context fr) ''search_result'' in
      case (if truthy search_result \<and> \<not> truthy (dict_get (f_params fr) ''item_uri'')
            then bind (py_item search_result ''uri'') (\<lambda>uri.
                   Inr (dict_set (f_params fr) ''item_uri'' uri))
            else Inr (f_params fr)) of
        Inl e \<Rightarrow> (Inl e, fr)
      | Inr params \<Rightarrow>
          (case invoke ses ''SpotifyGetInfo'' (fr\<lparr>f_params := params\<rparr>) of
             (Inl e, fr') \<Rightarrow> (Inl e, fr')
           | (Inr result, fr') \<Rightarrow>
               if isError result then (Inr (error_outcome ''Failed to get album tracks''), fr')
               else (case get_info_parse L result (f_context fr') of
                       Inl e \<Rightarrow> (Inl e, fr')
                     | Inr (outcome, context) \<Rightarrow> (Inr outcome, fr'\<lparr>f_context := context\<rparr>))))"

subsection \<open>Playback\<close>

definition item_type_of :: "json \<Rightarrow> string" where
  "item_type_of ty = (if ty = JStr ''album'' then ''album'' else ''track'')"

definition playback_outcome :: "pylib \<Rightarrow> dict \<Rightarrow> json \<Rightarrow> exn + dict" where
  "playback_outcome L params search_result =
     (if dict_get params ''action'' = JStr ''start'' then
        if truthy search_result then
          bind (py_item search_result ''type'') (\<lambda>ty.
          bind (py_item search_result ''name'') (\<lambda>name.
          bind (py_item search_result ''artist'') (\<lambda>artist.
            Inr [(''action'', JStr ''playback''),
                 (''type'', dict_get params ''action''),
                 (''message'', JStr (''Playing '' @ item_type_of ty @ '' '' @ py_str L name
                                      @ '' by '' @ py_str L artist)),
                 (''item'', search_result)])))
        else
          Inr [(''action'', JStr ''playback''), (''type'', JStr ''resume''),
               (''message'', JStr ''Resuming playback'')]
      else if dict_get params ''action'' = JStr ''pause'' then
        Inr [(''action'', JStr ''playback''), (''type'', JStr ''pause''),
             (''message'', JStr ''Playback paused'')]
      else if dict_get params ''action'' = JStr ''skip'' then
        Inr [(''action'', JStr ''playback''), (''type'', JStr ''skip''),
             (''message'', JStr ''Skipped to next track'')]
      else
        Inr [(''action'', JStr ''playback''),
             (''type'', dict_get_default params ''action'' (JStr ''unknown'')),
             (''message'', JStr ''Playback command executed'')])"

definition handle_playback_action :: "pylib \<Rightarrow> session \<Rightarrow> frame \<Rightarrow> (exn + dict) \<times> frame" where
  "handle_playback_action L ses fr =
     (let search_result = dict_get (f_context fr) ''search_result'' in
      case (if dict_get (f_params fr) ''action'' = JStr ''start''
               \<and> truthy search_result \<and> \<not> truthy (dict_get (f_params fr) ''spotify_uri'')
            then bind (py_item search_result ''uri'') (\<lambda>uri.
                 bind (py_in '':'' uri) (\<lambda>has_colon.
                   if \<not> has_colon
                   then Inr (dict_set (f_params fr) ''spotify_uri''
                               (JStr (''spotify:track:'' @ py_str L uri)))
                   else Inr (dict_set (f_params fr) ''spotify_uri'' uri)))
            else Inr (f_params fr)) of
        Inl e \<Rightarrow> (Inl e, fr)
      | Inr params \<Rightarrow>
          (case invoke ses ''SpotifyPlayback'' (fr\<lparr>f_params := params\<rparr>) of
             (Inl e, fr') \<Rightarrow> (Inl e, fr')
           | (Inr result, fr') \<Rightarrow>
               if isError result then
                 (Inr (error_outcome
                        ((''Playback action failed: '' @ py_str L (dict_get params ''action''))
                          @ '': '' @ first_text (content result) [])), fr')
               else (playback_outcome L params search_result, fr')))"

subsection \<open>Queue\<close>

definition queue_outcome :: "pylib \<Rightarrow> json \<Rightarrow> exn + dict" where
  "queue_outcome L search_result =
     (if truthy search_result then
        bind (py_item search_result ''type'') (\<lambda>ty.
        bind (py_item search_result ''name'') (\<lambda>name.
        bind (py_item search_result ''artist'') (\<lambda>artist.
          Inr [(''action'', JStr ''queue''),
               (''message'', JStr (''Added '' @ item_type_of ty @ '' '' @ py_str L name
                                    @ '' by '' @ py_str L artist @ '' to queue'')),
               (''item'', search_result)])))
      else
        Inr [(''action'', JStr ''queue''), (''message'', JStr ''Added item to queue'')])"

definition handle_queue_action :: "pylib \<Rightarrow> session \<Rightarrow> frame \<Rightarrow> (exn + dict) \<times> frame" where
  "handle_queue_action L ses fr =
     (let search_result = dict_get (f_context fr) ''search_result'' in
      if \<not> truthy (dict_get (f_params fr) ''track_id'') \<and> \<not> truthy search_result
      then (Inr (error_outcome ''No track ID available for queue''), fr)
      else
        case (if truthy search_result \<and> \<not> truthy (dict_get (f_params fr) ''track_id'')
              then bind (py_item search_result ''uri'') (\<lambda>uri.
                     Inr (dict_set (f_params fr) ''track_id'' uri))
              else Inr (f_params fr)) of
          Inl e \<Rightarrow> (Inl e, fr)
        | Inr params \<Rightarrow>
            (case invoke ses ''SpotifyQueue'' (fr\<lparr>f_params := params\<rparr>) of
               (Inl e, fr') \<Rightarrow> (Inl e, fr')
             | (Inr result, fr') \<Rightarrow>
                 if isError result then
                   (Inr (error_outcome
                          (''Failed to add to queue'' @ '': '' @ first_text (content result) [])), fr')
                 else (queue_outcome L search_result, fr')))"

subsection \<open>Playlist\<close>

definition underscores_to_spaces :: "string \<Rightarrow> string" where
  "underscores_to_spaces s = map (\<lambda>c. if c = CHR ''_'' then CHR '' '' else c) s"

definition handle_playlist_action :: "pylib \<Rightarrow> session \<Rightarrow> frame \<Rightarrow> (exn + dict) \<times> frame" where
  "handle_playlist_action L ses fr =
     (let params = f_params fr; action_type = dict_get params ''action'' in
      if action_type = JStr ''get'' then
        (case invoke ses ''SpotifyPlaylist'' fr of
           (Inl e, fr') \<Rightarrow> (Inl e, fr')
         | (Inr result, fr') \<Rightarrow>
             if isError result then (Inr (error_outcome ''Failed to get playlists''), fr')
             else
               (except_Exception
                  (bind (loads L (first_text (content result) ''{}'')) (\<lambda>playlists.
                   bind (py_len playlists) (\<lambda>n.
                     Inr [(''action'', JStr ''playlist_get''),
                          (''message'', JStr (''Found '' @ show_nat n @ '' playlists'')),
                          (''playlists'', playlists)])))
                  (Inr (error_outcome ''Failed to parse playlists'')), fr'))
      else if action_type = JStr ''get_tracks'' then
        if \<not> truthy (dict_get params ''playlist_id'')
        then (Inr (error_outcome ''playlist_id is required for get_tracks action''), fr)
        else
          (case invoke ses ''SpotifyPlaylist'' fr of
             (Inl e, fr') \<Rightarrow> (Inl e, fr')
           | (Inr result, fr') \<Rightarrow>
               if isError result then (Inr (error_outcome ''Failed to get playlist tracks''), fr')
               else
                 (except_Exception
                    (bind (loads L (first_text (content result) ''{}'')) (\<lambda>tracks.
                     bind (py_len tracks) (\<lambda>n.
                       Inr [(''action'', JStr ''playlist_get_tracks''),
                            (''message'', JStr (''Found '' @ show_nat n @ '' tracks in playlist'')),
                            (''tracks'', tracks)])))
                    (Inr (error_outcome ''Failed to parse playlist tracks'')), fr'))
      else if action_type \<in> set [JStr ''add_tracks'', JStr ''remove_tracks''] then
        if \<not> truthy (dict_get params ''playlist_id'') \<or> \<not> truthy (dict_get params ''track_ids'')
        then (Inr (error_outcome (''playlist_id and track_ids are required for ''
                                   @ py_str L action_type @ '' action'')), fr)
        else
          (case invoke ses ''SpotifyPlaylist'' fr of
             (Inl e, fr') \<Rightarrow> (Inl e, fr')
           | (Inr result, fr') \<Rightarrow>
               if isError result
               then (Inr (error_outcome
                           (''Failed to '' @ underscores_to_spaces (py_str L action_type))), fr')
               else
                 (Inr [(''action'', JStr (''playlist_'' @ py_str L action_type)),
                       (''message'', JStr (''Tracks ''
                           @ (if action_type = JStr ''add_tracks'' then ''added to'' else ''removed from'')
                           @ '' playlist''))], fr'))
      else if action_type = JStr ''change_details'' then
        if \<not> truthy (dict_get params ''playlist_id'')
           \<or> (\<not> truthy (dict_get params ''name'') \<and> \<not> truthy (dict_get params ''description''))
        then (Inr (error_outcome
                    ''playlist_id and at least one of name or description are required''), fr)
        else
          (case invoke ses ''SpotifyPlaylist'' fr of
             (Inl e, fr') \<Rightarrow> (Inl e, fr')
           | (Inr result, fr') \<Rightarrow>
               if isError result then (Inr (error_outcome ''Failed to change playlist details''), fr')
               else
                 (Inr [(''action'', JStr ''playlist_change_details''),
                       (''message'', JStr ''Playlist details updated'')], fr'))
      else
        (Inr (error_outcome (''Unknown playlist action: '' @ py_str L action_type)), fr))"

section \<open>Dispatcher, response formatter and sequence executor\<close>

definition execute_single_action ::
  "pylib \<Rightarrow> session \<Rightarrow> string \<Rightarrow> frame \<Rightarrow> (exn + dict) \<times> frame"
where
  "execute_single_action L ses tool_name fr =
     (if tool_name = ''SpotifySearch'' then
        (case handle_search_action L ses (f_params fr) (f_trace fr) of
           (r, tr') \<Rightarrow> (r, fr\<lparr>f_trace := tr'\<rparr>))
      else if tool_name = ''SpotifyGetInfo'' then handle_get_info_action L ses fr
      else if tool_name = ''SpotifyPlayback'' then handle_playback_action L ses fr
      else if tool_name = ''SpotifyQueue'' then handle_queue_action L ses fr
      else if tool_name = ''SpotifyPlaylist'' then handle_playlist_action L ses fr
      else (Inr (error_outcome (''Unsupported action: '' @ tool_name)), fr))"

text \<open>\<^verbatim>\<open>v + "\nSome actions failed"\<close>: string concatenation, a \<^verbatim>\<open>TypeError\<close> on anything else.\<close>

definition py_add_str :: "json \<Rightarrow> string \<Rightarrow> exn + json" where
  "py_add_str v s =
     (case v of
        JStr a \<Rightarrow> Inr (JStr (a @ s))
      | JArr xs \<Rightarrow>
          Inl (Exn TypeError (''can only concatenate list (not '' @ [CHR 0x22] @ ''str''
                               @ [CHR 0x22] @ '') to list''))
      | _ \<Rightarrow>
          Inl (Exn TypeError (''unsupported operand type(s) for +: '' @ quoted (type_name v)
                               @ '' and '' @ quoted ''str'')))"

definition some_failed :: string where
  "some_failed = CHR 0x0A # ''Some actions failed''"

definition format_final_response :: "dict list \<Rightarrow> exn + dict" where
  "format_final_response results =
     (let all_errors = filter (has_key ''error'') results in
      if all_errors \<noteq> [] then
        if length all_errors = length results then Inr (last all_errors)
        else
          (let successful_actions = filter (\<lambda>r. \<not> has_key ''error'' r) results in
           bind (py_add_str
                   (dict_get_default (last successful_actions) ''message'' (JStr ''Partial success''))
                   some_failed) (\<lambda>message.
             Inr [(''message'', message),
                  (''details'', JObj [(''success'', JObj (last successful_actions)),
                                      (''errors'', JArr (map JObj all_errors))])]))
      else
        (case results of
           [] \<Rightarrow> Inl (Exn IndexError ''list index out of range'')
         | _ \<Rightarrow>
             Inr [(''message'',
                     dict_get_default (last results) ''message'' (JStr ''Command executed successfully'')),
                  (''details'', JObj (last results))]))"

text \<open>
  An action is \<^verbatim>\<open>{"tool_name": ..., "params": ...}\<close>. The state of the loop of
  \<^verbatim>\<open>execute_spotify_actions\<close>: the list \<^verbatim>\<open>results\<close>, the dictionary \<^verbatim>\<open>context\<close>, the
  trace, and the actions dispatched so far with their parameter dictionaries as the
  handlers left them.
\<close>

record action =
  a_tool_name :: string
  a_params :: dict

record exec_state =
  st_results :: "dict list"
  st_context :: dict
  st_trace :: "event list"
  st_dispatched :: "action list"

definition update_context :: "dict \<Rightarrow> dict \<Rightarrow> dict" where
  "update_context result context =
     (if \<not> has_key ''error'' result then
        if dict_get result ''action'' = JStr ''search''
        then dict_set context ''search_result'' (dict_get result ''result'')
        else if dict_get result ''action'' = JStr ''get_info''
        then dict_set context ''album_info'' (dict_get result ''result'')
        else context
      else context)"

text \<open>
  One iteration of the loop: dispatch the action and append its outcome to
  \<^verbatim>\<open>results\<close>; a failed search returns at once, anything else updates the context and
  goes on; an exception leaves the loop.
\<close>

datatype step_result =
    Raised exn exec_state
  | Stopped dict exec_state
  | Next exec_state

text \<open>The frame handed to the dispatcher: the action's parameters, the context, the trace.\<close>

definition frame_of :: "action \<Rightarrow> exec_state \<Rightarrow> frame" where
  "frame_of act st =
     \<lparr>f_params = a_params act, f_context = st_context st, f_trace = st_trace st\<rparr>"

definition exec_step :: "pylib \<Rightarrow> session \<Rightarrow> action \<Rightarrow> exec_state \<Rightarrow> step_result" where
  "exec_step L ses act st =
     (case execute_single_action L ses (a_tool_name act) (frame_of act st) of
        (Inl e, fr) \<Rightarrow>
          Raised e (st\<lparr>st_context := f_context fr, st_trace := f_trace fr,
                       st_dispatched := st_dispatched st @ [act\<lparr>a_params := f_params fr\<rparr>]\<rparr>)
      | (Inr result, fr) \<Rightarrow>
          (let st' = st\<lparr>st_results := st_results st @ [result],
                         st_context := f_context fr, st_trace := f_trace fr,
                         st_dispatched := st_dispatched st @ [act\<lparr>a_params := f_params fr\<rparr>]\<rparr>
           in if has_key ''error'' result \<and> a_tool_name act = ''SpotifySearch''
              then Stopped result st'
              else Next (st'\<lparr>st_context := update_context result (st_context st')\<rparr>)))"

fun state_of :: "step_result \<Rightarrow> exec_state" where
  "state_of (Raised e st) = st"
| "state_of (Stopped result st) = st"
| "state_of (Next st) = st"

fun exec_loop ::
  "pylib \<Rightarrow> session \<Rightarrow> action list \<Rightarrow> exec_state \<Rightarrow> (exn + dict) \<times> exec_state"
where
  "exec_loop L ses [] st = (format_final_response (st_results st), st)"
| "exec_loop L ses (act # rest) st =
     (case exec_step L ses act st of
        Raised e st' \<Rightarrow> (Inl e, st')
      | Stopped result st' \<Rightarrow> (Inr result, st')
      | Next st' \<Rightarrow> exec_loop L ses rest st')"

text \<open>
  The state in which the loop reaches its \<open>n\<close>-th iteration (counted from 0), if it
  gets that far.
\<close>

fun state_before ::
  "pylib \<Rightarrow> session \<Rightarrow> action list \<Rightarrow> nat \<Rightarrow> exec_state \<Rightarrow> exec_state option"
where
  "state_before L ses acts 0 st = Some st"
| "state_before L ses [] (Suc n) st = None"
| "state_before L ses (act # rest) (Suc n) st =
     (case exec_step L ses act st of
        Raised e st' \<Rightarrow> None
      | Stopped result st' \<Rightarrow> None
      | Next st' \<Rightarrow> state_before L ses rest n st')"

definition initial_state :: "event list \<Rightarrow> exec_state" where
  "initial_state tr =
     \<lparr>st_results = [],
      st_context = [(''search_result'', JNull), (''album_tracks'', JNull)],
      st_trace = tr,
      st_dispatched = []\<rparr>"

definition execute_spotify_actions ::
  "pylib \<Rightarrow> session \<Rightarrow> action list \<Rightarrow> event list \<Rightarrow> dict \<times> exec_state"
where
  "execute_spotify_actions L ses actions tr =
     (case exec_loop L ses actions (initial_state tr) of
        (Inl e, st) \<Rightarrow> ([(''error'', JStr (str_of_exn e))], st)
      | (Inr response, st) \<Rightarrow> (response, st))"

text \<open>The caller's list of actions after the run: those dispatched, then those never reached.\<close>

definition actions_after :: "action list \<Rightarrow> exec_state \<Rightarrow> action list" where
  "actions_after actions st = st_dispatched st @ drop (length (st_dispatched st)) actions"

section \<open>Sample inputs\<close>

text \<open>
  Concrete payload texts with their decoding, a library that decodes exactly these,
  and two sessions: one that answers every call with the same result and one whose
  every call raises. The samples never print a float, a list or a dictionary.
\<close>

definition track_text_list_artist :: string where
  "track_text_list_artist =
     ''{\"tracks\": [{\"name\": \"Song A\", \"id\": \"track123\", \"artists\": [\"Artist X\"]}]}''"

definition track_text_scalar_artist :: string where
  "track_text_scalar_artist =
     ''{\"tracks\": [{\"name\": \"Song A\", \"id\": \"track123\", \"artist\": \"Artist X\"}]}''"

definition track_text_no_artist :: string where
  "track_text_no_artist = ''{\"tracks\": [{\"name\": \"Song A\", \"id\": \"track123\"}]}''"

definition track_text_empty_item :: string where
  "track_text_empty_item = ''{\"tracks\": [{}]}''"

definition sample_json_loads :: "string \<Rightarrow> string + json" where
  "sample_json_loads s =
     (if s = ''{}'' then Inr (JObj [])
      else if s = track_text_list_artist then
        Inr (JObj [(''tracks'', JArr [JObj [(''name'', JStr ''Song A''), (''id'', JStr ''track123''),
                                            (''artists'', JArr [JStr ''Artist X''])]])])
      else if s = track_text_scalar_artist then
        Inr (JObj [(''tracks'', JArr [JObj [(''name'', JStr ''Song A''), (''id'', JStr ''track123''),
                                            (''artist'', JStr ''Artist X'')]])])
      else if s = track_text_no_artist then
        Inr (JObj [(''tracks'', JArr [JObj [(''name'', JStr ''Song A''), (''id'', JStr ''track123'')]])])
      else if s = track_text_empty_item then Inr (JObj [(''tracks'', JArr [JObj []])])
      else Inl ''Expecting value: line 1 column 1 (char 0)'')"

definition sample_lib :: pylib where
  "sample_lib = \<lparr>json_loads = sample_json_loads, str_other = (\<lambda>v. ''<repr>'')\<rparr>"

definition answering :: "remote_result \<Rightarrow> session" where
  "answering result = (\<lambda>tr tool_name params. Inr result)"

definition raising :: "exn \<Rightarrow> session" where
  "raising e = (\<lambda>tr tool_name params. Inl e)"

section \<open>Basic facts about the helper operations\<close>

lemma bind_Inl [simp]: "bind (Inl e) f = Inl e"
  by (simp add: bind_def)

lemma bind_Inr [simp]: "bind (Inr x) f = f x"
  by (simp add: bind_def)

lemma bind_eq_Inr: "bind m f = Inr y \<longleftrightarrow> (\<exists>x. m = Inr x \<and> f x = Inr y)"
  by (cases m) simp_all

lemma except_Inr [simp]: "except cs (Inr x) h = Inr x"
  by (simp add: except_def)

lemma except_Inl [simp]:
  "except cs (Inl (Exn c msg)) h = (if c \<in> set cs then h else Inl (Exn c msg))"
  by (simp add: except_def)

lemma except_Exception_Inr [simp]: "except_Exception (Inr x) h = Inr x"
  by (simp add: except_Exception_def)

lemma except_Exception_Inl [simp]: "except_Exception (Inl e) h = h"
  by (simp add: except_Exception_def)

lemma has_key_error_outcome [simp]: "has_key ''error'' (error_outcome m)"
  by (simp add: has_key_def error_outcome_def)

section \<open>The retrying invoker\<close>

declare retry_loop.simps [simp del]

lemma retry_loop_answer:
  "retries < max_retries \<Longrightarrow> ses tr tool_name params = Inr r \<Longrightarrow>
   retry_loop ses tool_name params max_retries retries tr
     = (Inr (Some r), tr @ [Call tool_name params])"
  by (subst retry_loop.simps) simp

lemma retry_loop_exhausted:
  "retries < max_retries \<Longrightarrow> max_retries \<le> retries + 1 \<Longrightarrow> ses tr tool_name params = Inl e \<Longrightarrow>
   retry_loop ses tool_name params max_retries retries tr = (Inl e, tr @ [Call tool_name params])"
  by (subst retry_loop.simps) simp

lemma retry_loop_again:
  "retries + 1 < max_retries \<Longrightarrow> ses tr tool_name params = Inl e \<Longrightarrow>
   retry_loop ses tool_name params max_retries retries tr =
   retry_loop ses tool_name params max_retries (retries + 1)
     (tr @ [Call tool_name params, Sleep (RETRY_DELAY * 2 ^ nat retries)])"
  by (subst retry_loop.simps) simp

lemma retry_loop_none:
  "\<not> retries < max_retries \<Longrightarrow>
   retry_loop ses tool_name params max_retries retries tr = (Inr None, tr)"
  by (subst retry_loop.simps) simp

text \<open>
  Every run of the loop that is entered: some number \<open>k\<close> of attempts fail and are
  retried after their sleeps, and attempt \<open>k + 1\<close> decides the outcome: its answer is
  returned, or its exception is re-raised because the bound is reached.
\<close>

lemma retry_loop_shape:
  "0 \<le> retries \<Longrightarrow> retries < max_retries \<Longrightarrow>
   \<exists>k. retries + int k < max_retries \<and>
       (\<forall>j<k. \<exists>e. ses (tr @ backoff_trace tool_name params (nat retries) j) tool_name params = Inl e) \<and>
       retry_loop ses tool_name params max_retries retries tr =
         ((case ses (tr @ backoff_trace tool_name params (nat retries) k) tool_name params of
             Inr r \<Rightarrow> Inr (Some r) | Inl e \<Rightarrow> Inl e),
          tr @ backoff_trace tool_name params (nat retries) k @ [Call tool_name params]) \<and>
       ((\<exists>e. ses (tr @ backoff_trace tool_name params (nat retries) k) tool_name params = Inl e)
          \<longrightarrow> retries + int k + 1 = max_retries)"
proof (induction ses tool_name params max_retries retries tr rule: retry_loop.induct)
  case (1 ses tool_name params max_retries retries tr)
  let ?tr1 = "tr @ [Call tool_name params, Sleep (RETRY_DELAY * 2 ^ nat (retries + 1 - 1))]"
  show ?case
  proof (cases "ses tr tool_name params")
    case (Inr r)
    with 1(2,3) show ?thesis
      by (intro exI[of _ 0]) (simp add: retry_loop_answer)
  next
    case (Inl e)
    show ?thesis
    proof (cases "max_retries \<le> retries + 1")
      case True
      with Inl 1(2,3) show ?thesis
        by (intro exI[of _ 0]) (simp add: retry_loop_exhausted)
    next
      case False
      then have lt: "retries + 1 < max_retries" by simp
      have nn: "0 \<le> retries + 1" using 1(2) by simp
      have sc: "nat (retries + 1) = Suc (nat retries)" using 1(2) by simp
      from "1.IH"[OF 1(3) Inl _ nn lt] False
      obtain k where k: "retries + 1 + int k < max_retries"
        "\<forall>j<k. \<exists>e. ses (?tr1 @ backoff_trace tool_name params (nat (retries + 1)) j) tool_name params = Inl e"
        "retry_loop ses tool_name params max_retries (retries + 1) ?tr1 =
         ((case ses (?tr1 @ backoff_trace tool_name params (nat (retries + 1)) k) tool_name params of
             Inr r \<Rightarrow> Inr (Some r) | Inl e \<Rightarrow> Inl e),
          ?tr1 @ backoff_trace tool_name params (nat (retries + 1)) k @ [Call tool_name params])"
        "(\<exists>e. ses (?tr1 @ backoff_trace tool_name params (nat (retries + 1)) k) tool_name params = Inl e)
          \<longrightarrow> retries + 1 + int k + 1 = max_retries"
        by auto
      have all: "\<forall>j<Suc k. \<exists>e. ses (tr @ backoff_trace tool_name params (nat retries) j) tool_name params = Inl e"
      proof (intro allI impI)
        fix j assume "j < Suc k"
        show "\<exists>e. ses (tr @ backoff_trace tool_name params (nat retries) j) tool_name params = Inl e"
        proof (cases j)
          case 0
          then show ?thesis using Inl by simp
        next
          case (Suc i)
          with \<open>j < Suc k\<close> have "i < k" by simp
          with k(2) Suc show ?thesis by (simp add: sc)
        qed
      qed
      show ?thesis
        apply (rule exI[of _ "Suc k"])
        using k(1,3,4) all lt Inl
        by (simp add: retry_loop_again sc)
    qed
  qed
qed

text \<open>
  Claim C3. With \<^verbatim>\<open>max_retries = 3\<close> and a tool that fails twice and then answers, the
  invoker makes exactly three calls, sleeping \<^verbatim>\<open>RETRY_DELAY * 2 ** 0\<close> and then
  \<^verbatim>\<open>RETRY_DELAY * 2 ** 1\<close> seconds between them, and returns the answer. With
  \<^verbatim>\<open>max_retries = 2\<close> and a tool that fails both times it makes exactly two calls and
  raises the second failure. For every positive bound, the trace of a call is a number
  \<open>k\<close> of failed attempts, each followed by its sleep of
  \<^verbatim>\<open>RETRY_DELAY * 2 ** (attempt - 1)\<close> seconds, then one last call, which either answers
  or is the failure of attempt \<^verbatim>\<open>max_retries\<close>.
\<close>

theorem call_tool_with_retry_attempts:
  "(ses tr tool_name params = Inl e1 \<and>
    ses (tr @ [Call tool_name params, Sleep (RETRY_DELAY * 2 ^ 0)]) tool_name params = Inl e2 \<and>
    ses (tr @ [Call tool_name params, Sleep (RETRY_DELAY * 2 ^ 0),
               Call tool_name params, Sleep (RETRY_DELAY * 2 ^ 1)]) tool_name params = Inr r
    \<longrightarrow> call_tool_with_retry ses tool_name params 3 tr =
          (Inr (Some r),
           tr @ [Call tool_name params, Sleep (RETRY_DELAY * 2 ^ 0),
                 Call tool_name params, Sleep (RETRY_DELAY * 2 ^ 1),
                 Call tool_name params]))
   \<and>
   (ses tr tool_name params = Inl e1 \<and>
    ses (tr @ [Call tool_name params, Sleep (RETRY_DELAY * 2 ^ 0)]) tool_name params = Inl e2
    \<longrightarrow> call_tool_with_retry ses tool_name params 2 tr =
          (Inl e2,
           tr @ [Call tool_name params, Sleep (RETRY_DELAY * 2 ^ 0), Call tool_name params]))
   \<and>
   (0 < max_retries \<longrightarrow>
      (\<exists>k. int k < max_retries \<and>
        (\<forall>j<k. \<exists>e. ses (tr @ backoff_trace tool_name params 0 j) tool_name params = Inl e) \<and>
        call_tool_with_retry ses tool_name params max_retries tr =
          ((case ses (tr @ backoff_trace tool_name params 0 k) tool_name params of
              Inr r \<Rightarrow> Inr (Some r) | Inl e \<Rightarrow> Inl e),
           tr @ backoff_trace tool_name params 0 k @ [Call tool_name params]) \<and>
        ((\<exists>e. ses (tr @ backoff_trace tool_name params 0 k) tool_name params = Inl e)
           \<longrightarrow> int k + 1 = max_retries)))"
proof (intro conjI impI)
  assume h: "ses tr tool_name params = Inl e1 \<and>
    ses (tr @ [Call tool_name params, Sleep (RETRY_DELAY * 2 ^ 0)]) tool_name params = Inl e2 \<and>
    ses (tr @ [Call tool_name params, Sleep (RETRY_DELAY * 2 ^ 0),
               Call tool_name params, Sleep (RETRY_DELAY * 2 ^ 1)]) tool_name params = Inr r"
  have "call_tool_with_retry ses tool_name params 3 tr =
        retry_loop ses tool_name params 3 1 (tr @ [Call tool_name params, Sleep (RETRY_DELAY * 2 ^ 0)])"
    using h retry_loop_again[of 0 3 ses tr tool_name params e1]
    by (simp add: call_tool_with_retry_def)
  also have "\<dots> = retry_loop ses tool_name params 3 2
        (tr @ [Call tool_name params, Sleep (RETRY_DELAY * 2 ^ 0),
               Call tool_name params, Sleep (RETRY_DELAY * 2 ^ 1)])"
    using h retry_loop_again[of 1 3 ses "tr @ [Call tool_name params, Sleep (RETRY_DELAY * 2 ^ 0)]"
                                tool_name params e2]
    by simp
  also have "\<dots> = (Inr (Some r),
           tr @ [Call tool_name params, Sleep (RETRY_DELAY * 2 ^ 0),
                 Call tool_name params, Sleep (RETRY_DELAY * 2 ^ 1),
                 Call tool_name params])"
    using h retry_loop_answer[of 2 3 ses
             "tr @ [Call tool_name params, Sleep (RETRY_DELAY * 2 ^ 0),
                    Call tool_name params, Sleep (RETRY_DELAY * 2 ^ 1)]" tool_name params r]
    by simp
  finally show "call_tool_with_retry ses tool_name params 3 tr =
          (Inr (Some r),
           tr @ [Call tool_name params, Sleep (RETRY_DELAY * 2 ^ 0),
                 Call tool_name params, Sleep (RETRY_DELAY * 2 ^ 1),
                 Call tool_name params])" .
next
  assume h: "ses tr tool_name params = Inl e1 \<and>
    ses (tr @ [Call tool_name params, Sleep (RETRY_DELAY * 2 ^ 0)]) tool_name params = Inl e2"
  have "call_tool_with_retry ses tool_name params 2 tr =
        retry_loop ses tool_name params 2 1 (tr @ [Call tool_name params, Sleep (RETRY_DELAY * 2 ^ 0)])"
    using h retry_loop_again[of 0 2 ses tr tool_name params e1]
    by (simp add: call_tool_with_retry_def)
  also have "\<dots> = (Inl e2,
           tr @ [Call tool_name params, Sleep (RETRY_DELAY * 2 ^ 0), Call tool_name params])"
    using h retry_loop_exhausted[of 1 2 ses "tr @ [Call tool_name params, Sleep (RETRY_DELAY * 2 ^ 0)]"
                                    tool_name params e2]
    by simp
  finally show "call_tool_with_retry ses tool_name params 2 tr =
          (Inl e2,
           tr @ [Call tool_name params, Sleep (RETRY_DELAY * 2 ^ 0), Call tool_name params])" .
next
  assume "0 < max_retries"
  then show "\<exists>k. int k < max_retries \<and>
        (\<forall>j<k. \<exists>e. ses (tr @ backoff_trace tool_name params 0 j) tool_name params = Inl e) \<and>
        call_tool_with_retry ses tool_name params max_retries tr =
          ((case ses (tr @ backoff_trace tool_name params 0 k) tool_name params of
              Inr r \<Rightarrow> Inr (Some r) | Inl e \<Rightarrow> Inl e),
           tr @ backoff_trace tool_name params 0 k @ [Call tool_name params]) \<and>
        ((\<exists>e. ses (tr @ backoff_trace tool_name params 0 k) tool_name params = Inl e)
           \<longrightarrow> int k + 1 = max_retries)"
    using retry_loop_shape[of 0 max_retries ses tr tool_name params]
    by (simp add: call_tool_with_retry_def)
qed

theorem call_tool_with_retry_attempts_witness:
  "call_tool_with_retry
     (\<lambda>tr t p. if length tr < 4 then Inl (Exn OtherError ''failure'')
                else Inr \<lparr>isError = False, content = [TextContent ''success'']\<rparr>)
     ''TestTool'' [(''param'', JStr ''value'')] 3 []
   = (Inr (Some \<lparr>isError = False, content = [TextContent ''success'']\<rparr>),
      [Call ''TestTool'' [(''param'', JStr ''value'')], Sleep 1,
       Call ''TestTool'' [(''param'', JStr ''value'')], Sleep 2,
       Call ''TestTool'' [(''param'', JStr ''value'')]])
   \<and>
   call_tool_with_retry
     (\<lambda>tr t p. Inl (Exn OtherError (''Persistent failure '' @ show_nat (length tr))))
     ''TestTool'' [(''param'', JStr ''value'')] 2 []
   = (Inl (Exn OtherError ''Persistent failure 2''),
      [Call ''TestTool'' [(''param'', JStr ''value'')], Sleep 1,
       Call ''TestTool'' [(''param'', JStr ''value'')]])"
  using call_tool_with_retry_attempts
          [of "\<lambda>tr t p. if length tr < 4 then Inl (Exn OtherError ''failure'')
                else Inr \<lparr>isError = False, content = [TextContent ''success'']\<rparr>"
              "[]" "''TestTool''" "[(''param'', JStr ''value'')]"
              "Exn OtherError ''failure''" "Exn OtherError ''failure''"
              "\<lparr>isError = False, content = [TextContent ''success'']\<rparr>" 1]
        call_tool_with_retry_attempts
          [of "\<lambda>tr t p. Inl (Exn OtherError (''Persistent failure '' @ show_nat (length tr)))"
              "[]" "''TestTool''" "[(''param'', JStr ''value'')]"
              "Exn OtherError ''Persistent failure 0''" "Exn OtherError ''Persistent failure 2''"
              "\<lparr>isError = False, content = []\<rparr>" 1]
  by (simp add: RETRY_DELAY_def)

section \<open>The response formatter\<close>

lemma format_all_errors:
  "results \<noteq> [] \<Longrightarrow> \<forall>r\<in>set results. has_key ''error'' r \<Longrightarrow>
   format_final_response results = Inr (last results)"
  by (simp add: format_final_response_def)

lemma format_all_success:
  "results \<noteq> [] \<Longrightarrow> \<forall>r\<in>set results. \<not> has_key ''error'' r \<Longrightarrow>
   format_final_response results =
     Inr [(''message'',
             dict_get_default (last results) ''message'' (JStr ''Command executed successfully'')),
          (''details'', JObj (last results))]"
  by (cases results) (simp_all add: format_final_response_def filter_empty_conv)

lemma format_mixed:
  assumes "\<exists>r\<in>set results. has_key ''error'' r" "\<exists>r\<in>set results. \<not> has_key ''error'' r"
    and "dict_get_default (last (filter (\<lambda>r. \<not> has_key ''error'' r) results)) ''message''
           (JStr ''Partial success'') = JStr m"
  shows "format_final_response results =
     Inr [(''message'', JStr (m @ some_failed)),
          (''details'',
             JObj [(''success'', JObj (last (filter (\<lambda>r. \<not> has_key ''error'' r) results))),
                   (''errors'', JArr (map JObj (filter (has_key ''error'') results)))])]"
proof -
  have ne: "filter (has_key ''error'') results \<noteq> []"
    using assms(1) by (simp add: filter_empty_conv)
  have nl: "length (filter (has_key ''error'') results) \<noteq> length results"
    using assms(2) length_filter_less[of _ results "has_key ''error''"] by fastforce
  show ?thesis
    using ne nl assms(3) by (simp add: format_final_response_def py_add_str_def)
qed

text \<open>
  Claim C2, as the code has it. For every non-empty list of step outcomes: when every
  outcome is an error the formatter returns the last of them; when every outcome is a
  success it returns the last outcome's message (\<^verbatim>\<open>"Command executed successfully"\<close>
  when it has none) with the last outcome as details; when outcomes are mixed it
  returns the last success outcome's message, or \<^verbatim>\<open>"Partial success"\<close> when that outcome
  has no message, followed by \<^verbatim>\<open>"\nSome actions failed"\<close>, with the last success outcome
  and the list of all error outcomes as details.
\<close>

theorem format_final_response_cases:
  assumes "results \<noteq> []"
  shows
    "((\<forall>r\<in>set results. has_key ''error'' r) \<longrightarrow>
        format_final_response results = Inr (last results))
     \<and>
     ((\<exists>r\<in>set results. has_key ''error'' r) \<and> (\<exists>r\<in>set results. \<not> has_key ''error'' r) \<and>
      dict_get_default (last (filter (\<lambda>r. \<not> has_key ''error'' r) results)) ''message''
        (JStr ''Partial success'') = JStr m \<longrightarrow>
        format_final_response results =
          Inr [(''message'', JStr (m @ some_failed)),
               (''details'',
                  JObj [(''success'', JObj (last (filter (\<lambda>r. \<not> has_key ''error'' r) results))),
                        (''errors'', JArr (map JObj (filter (has_key ''error'') results)))])])
     \<and>
     ((\<forall>r\<in>set results. \<not> has_key ''error'' r) \<longrightarrow>
        format_final_response results =
          Inr [(''message'',
                  dict_get_default (last results) ''message'' (JStr ''Command executed successfully'')),
               (''details'', JObj (last results))])"
  using assms format_all_errors[of results] format_all_success[of results] format_mixed[of results m]
  by blast

theorem format_final_response_cases_witness:
  "format_final_response [[(''error'', JStr ''Search failed'')], [(''error'', JStr ''Playback failed'')]]
     = Inr [(''error'', JStr ''Playback failed'')]
   \<and>
   format_final_response
     [[(''action'', JStr ''search''), (''message'', JStr ''Found song'')],
      [(''error'', JStr ''Playback failed'')]]
     = Inr [(''message'', JStr (''Found song'' @ some_failed)),
            (''details'',
               JObj [(''success'', JObj [(''action'', JStr ''search''), (''message'', JStr ''Found song'')]),
                     (''errors'', JArr [JObj [(''error'', JStr ''Playback failed'')]])])]
   \<and>
   format_final_response
     [[(''action'', JStr ''search'')], [(''action'', JStr ''playback''), (''message'', JStr ''Playing song'')]]
     = Inr [(''message'', JStr ''Playing song''),
            (''details'', JObj [(''action'', JStr ''playback''), (''message'', JStr ''Playing song'')])]"
  using format_final_response_cases
          [of "[[(''error'', JStr ''Search failed'')], [(''error'', JStr ''Playback failed'')]]"
              "''''"]
        format_final_response_cases
          [of "[[(''action'', JStr ''search''), (''message'', JStr ''Found song'')],
                [(''error'', JStr ''Playback failed'')]]"
              "''Found song''"]
        format_final_response_cases
          [of "[[(''action'', JStr ''search'')],
                [(''action'', JStr ''playback''), (''message'', JStr ''Playing song'')]]"
              "''''"]
  by (simp add: has_key_def dict_get_default_def)

text \<open>
  The mixed case as claim C2 words it (the message of the last success outcome
  followed by the suffix) fails when that outcome carries no message, as the outcome
  of a successful search does: a search that succeeds followed by a playback that fails
  is answered with \<^verbatim>\<open>"Partial success\nSome actions failed"\<close>.
\<close>

theorem format_final_response_partial_counterexample:
  "format_final_response
     [[(''action'', JStr ''search''),
       (''result'', JObj [(''name'', JStr ''Song A''), (''uri'', JStr ''spotify:track:t1''),
                          (''id'', JStr ''t1''), (''artist'', JStr ''A''), (''type'', JStr ''track'')])],
      [(''error'', JStr ''Playback action failed: start: '')]]
   = Inr [(''message'', JStr (''Partial success'' @ some_failed)),
          (''details'',
             JObj [(''success'',
                      JObj [(''action'', JStr ''search''),
                            (''result'', JObj [(''name'', JStr ''Song A''),
                                               (''uri'', JStr ''spotify:track:t1''),
                                               (''id'', JStr ''t1''), (''artist'', JStr ''A''),
                                               (''type'', JStr ''track'')])]),
                   (''errors'', JArr [JObj [(''error'', JStr ''Playback action failed: start: '')]])])]
   \<and> map_of [(''action'', JStr ''search''),
             (''result'', JObj [(''name'', JStr ''Song A''), (''uri'', JStr ''spotify:track:t1''),
                                (''id'', JStr ''t1''), (''artist'', JStr ''A''),
                                (''type'', JStr ''track'')])] ''message'' = None"
  by (simp add: format_final_response_def has_key_def dict_get_default_def py_add_str_def)

section \<open>The empty sequence\<close>

text \<open>
  Claim C10. For the empty list of actions the formatter reads \<^verbatim>\<open>results[-1]\<close> of an
  empty list, which raises \<^verbatim>\<open>IndexError\<close>; the handler at the top of
  \<^verbatim>\<open>execute_spotify_actions\<close> turns it into an error response. The response has no
  \<^verbatim>\<open>message\<close>, and no call is made.
\<close>

theorem execute_spotify_actions_empty:
  "format_final_response [] = Inl (Exn IndexError ''list index out of range'')
   \<and> fst (execute_spotify_actions L ses [] tr) = [(''error'', JStr ''list index out of range'')]
   \<and> has_key ''error'' (fst (execute_spotify_actions L ses [] tr))
   \<and> \<not> has_key ''message'' (fst (execute_spotify_actions L ses [] tr))
   \<and> st_trace (snd (execute_spotify_actions L ses [] tr)) = tr"
  by (simp add: execute_spotify_actions_def initial_state_def format_final_response_def has_key_def)

section \<open>Calls that are answered at the first attempt\<close>

lemma call_answered:
  "0 < max_retries \<Longrightarrow> ses tr tool_name params = Inr r \<Longrightarrow>
   call_tool_with_retry ses tool_name params max_retries tr
     = (Inr (Some r), tr @ [Call tool_name params])"
  by (simp add: call_tool_with_retry_def retry_loop_answer)

lemma call_answering [simp]:
  "call_tool_with_retry (answering r) tool_name params MAX_RETRIES tr
     = (Inr (Some r), tr @ [Call tool_name params])"
  by (rule call_answered) (simp_all add: MAX_RETRIES_def answering_def)

lemma invoke_answering [simp]:
  "invoke (answering r) tool_name fr
     = (Inr r, fr\<lparr>f_trace := f_trace fr @ [Call tool_name (f_params fr)]\<rparr>)"
  by (simp add: invoke_def)

lemma first_text_no_text:
  "\<forall>c\<in>set cs. c = OtherContent \<Longrightarrow> first_text cs dflt = dflt"
  by (induction cs) auto

lemma py_str_JStr [simp]: "py_str L (JStr s) = s"
  by (simp add: py_str_def)

section \<open>The search handler\<close>

lemma handle_search_ok:
  assumes "call_tool_with_retry ses ''SpotifySearch'' params MAX_RETRIES tr = (Inr (Some result), tr')"
    and "\<not> isError result"
  shows "handle_search_action L ses params tr =
          (except [JSONDecodeError, KeyError, IndexError] (search_parse L params result)
                  (Inr (error_outcome ''Failed to parse search results'')), tr')"
  using assms by (simp add: handle_search_action_def)

lemma search_track_item:
  assumes "map_of track ''name'' = Some name" "map_of track ''id'' = Some ident"
  shows "search_result_of L ''track'' (JObj track) =
          (if is_list (dict_get track ''artists'')
           then bind (py_first (dict_get track ''artists'')) (\<lambda>artist.
                  Inr (JObj [(''name'', name), (''uri'', JStr (''spotify:track:'' @ py_str L ident)),
                             (''id'', ident), (''artist'', artist), (''type'', JStr ''track'')]))
           else Inr (JObj [(''name'', name), (''uri'', JStr (''spotify:track:'' @ py_str L ident)),
                           (''id'', ident),
                           (''artist'', dict_get_default track ''artist'' (JStr ''Unknown Artist'')),
                           (''type'', JStr ''track'')]))"
  using assms
  by (cases "map_of track ''artists''")
     (simp_all add: search_result_of_def first_artist_def py_in_def py_item_def has_key_def
        dict_get_def py_get_default_def)

lemma search_parse_track:
  assumes "json_loads L (first_text (content result) ''{}'') = Inr (JObj payload)"
    and "\<not> (dict_get params ''qtype'' = JStr ''album'' \<and> truthy (dict_get payload ''albums''))"
    and "map_of payload ''tracks'' = Some (JArr (item # others))"
  shows "search_parse L params result =
           bind (search_result_of L ''track'' item) (\<lambda>search_result.
             Inr [(''action'', JStr ''search''), (''result'', search_result)])"
  using assms
  by (auto simp add: search_parse_def loads_def py_get_def py_get_default_def dict_get_default_def
        dict_get_def py_item_def py_first_def)

lemma search_parse_empty:
  assumes "json_loads L ''{}'' = Inr (JObj [])" "\<forall>c\<in>set (content result). c = OtherContent"
  shows "search_parse L params result =
          Inr (error_outcome (''No results found for query: '' @ py_str L (dict_get params ''query'')))"
  using assms
  by (simp add: search_parse_def first_text_no_text loads_def py_get_def py_get_default_def
        dict_get_default_def)

lemma search_track_unnamed:
  assumes "map_of track ''name'' = None \<or> map_of track ''id'' = None"
  shows "except [JSONDecodeError, KeyError, IndexError]
           (bind (search_result_of L ''track'' (JObj track)) (\<lambda>search_result.
              Inr [(''action'', JStr ''search''), (''result'', search_result)]))
           (Inr (error_outcome ''Failed to parse search results''))
         = Inr (error_outcome ''Failed to parse search results'')"
proof -
  have "\<exists>c m. search_result_of L ''track'' (JObj track) = Inl (Exn c m) \<and> c \<in> {KeyError, IndexError}"
  proof (cases "first_artist (JObj track)")
    case (Inr artist)
    then show ?thesis
      using assms by (auto simp add: search_result_of_def py_item_def split: option.splits)
  next
    case (Inl e)
    then have "e = Exn IndexError ''list index out of range''"
      by (auto simp add: first_artist_def py_in_def py_item_def py_first_def py_get_default_def
            bind_def has_key_def map_of_eq_None_iff split: if_splits option.splits json.splits list.splits sum.splits)
    with Inl show ?thesis
      by (simp add: search_result_of_def)
  qed
  then show ?thesis
    by (auto simp add: except_def)
qed

lemma handle_search_track_named:
  assumes "call_tool_with_retry ses ''SpotifySearch'' params MAX_RETRIES tr = (Inr (Some result), tr')"
    and "\<not> isError result"
    and "json_loads L (first_text (content result) ''{}'') = Inr (JObj payload)"
    and "\<not> (dict_get params ''qtype'' = JStr ''album'' \<and> truthy (dict_get payload ''albums''))"
    and "map_of payload ''tracks'' = Some (JArr (JObj track # others))"
    and "map_of track ''name'' = Some name"
    and "map_of track ''id'' = Some (JStr ''track123'')"
  shows
    "(\<forall>outcome. fst (handle_search_action L ses params tr) = Inr outcome \<and> \<not> has_key ''error'' outcome
        \<longrightarrow> (\<exists>artist. outcome =
               [(''action'', JStr ''search''),
                (''result'', JObj [(''name'', name), (''uri'', JStr ''spotify:track:track123''),
                                   (''id'', JStr ''track123''), (''artist'', artist),
                                   (''type'', JStr ''track'')])]))
     \<and>
     (map_of track ''artists'' = Some (JArr (JStr ''Artist X'' # artists_rest)) \<longrightarrow>
        handle_search_action L ses params tr =
          (Inr [(''action'', JStr ''search''),
                (''result'', JObj [(''name'', name), (''uri'', JStr ''spotify:track:track123''),
                                   (''id'', JStr ''track123''), (''artist'', JStr ''Artist X''),
                                   (''type'', JStr ''track'')])], tr'))
     \<and>
     (\<not> is_list (dict_get track ''artists'') \<and> map_of track ''artist'' = Some artist_value \<longrightarrow>
        handle_search_action L ses params tr =
          (Inr [(''action'', JStr ''search''),
                (''result'', JObj [(''name'', name), (''uri'', JStr ''spotify:track:track123''),
                                   (''id'', JStr ''track123''), (''artist'', artist_value),
                                   (''type'', JStr ''track'')])], tr'))
     \<and>
     (\<not> is_list (dict_get track ''artists'') \<and> map_of track ''artist'' = None \<longrightarrow>
        handle_search_action L ses params tr =
          (Inr [(''action'', JStr ''search''),
                (''result'', JObj [(''name'', name), (''uri'', JStr ''spotify:track:track123''),
                                   (''id'', JStr ''track123''), (''artist'', JStr ''Unknown Artist''),
                                   (''type'', JStr ''track'')])], tr'))"
proof -
  let ?item = "\<lambda>artist. JObj [(''name'', name), (''uri'', JStr ''spotify:track:track123''),
                                   (''id'', JStr ''track123''), (''artist'', artist),
                                   (''type'', JStr ''track'')]"
  let ?ok = "\<lambda>artist. [(''action'', JStr ''search''), (''result'', ?item artist)]"
  have item: "search_result_of L ''track'' (JObj track) =
          (if is_list (dict_get track ''artists'')
           then bind (py_first (dict_get track ''artists'')) (\<lambda>artist. Inr (?item artist))
           else Inr (?item (dict_get_default track ''artist'' (JStr ''Unknown Artist''))))"
    using search_track_item[OF assms(6,7), of L] by simp
  have run: "handle_search_action L ses params tr =
          (except [JSONDecodeError, KeyError, IndexError]
             (bind (search_result_of L ''track'' (JObj track)) (\<lambda>search_result.
                Inr [(''action'', JStr ''search''), (''result'', search_result)]))
             (Inr (error_outcome ''Failed to parse search results'')), tr')"
    using handle_search_ok[OF assms(1,2)] search_parse_track[OF assms(3,4,5)] by simp
  have general: "\<forall>outcome. fst (handle_search_action L ses params tr) = Inr outcome
        \<and> \<not> has_key ''error'' outcome \<longrightarrow> (\<exists>artist. outcome = ?ok artist)"
  proof (cases "is_list (dict_get track ''artists'')")
    case False
    then show ?thesis by (simp add: run item)
  next
    case True
    then obtain xs where xs: "dict_get track ''artists'' = JArr xs"
      by (cases "dict_get track ''artists''") simp_all
    show ?thesis
      by (cases xs) (simp_all add: run item xs py_first_def)
  qed
  have listed: "map_of track ''artists'' = Some (JArr (JStr ''Artist X'' # artists_rest)) \<longrightarrow>
        handle_search_action L ses params tr = (Inr (?ok (JStr ''Artist X'')), tr')"
    by (simp add: run item dict_get_def py_first_def)
  have scalar: "\<not> is_list (dict_get track ''artists'') \<and> map_of track ''artist'' = Some artist_value
        \<longrightarrow> handle_search_action L ses params tr = (Inr (?ok artist_value), tr')"
    by (simp add: run item dict_get_default_def)
  have absent: "\<not> is_list (dict_get track ''artists'') \<and> map_of track ''artist'' = None
        \<longrightarrow> handle_search_action L ses params tr = (Inr (?ok (JStr ''Unknown Artist'')), tr')"
    by (simp add: run item dict_get_default_def)
  from general listed scalar absent show ?thesis by blast
qed

text \<open>
  Claim C4, as the code has it. A search is answered without error, the payload decodes
  to an object, the track branch is taken and the chosen item, the first element of
  \<^verbatim>\<open>tracks\<close>, is an object.

  When the item has a \<^verbatim>\<open>name\<close> and the \<^verbatim>\<open>id\<close> \<^verbatim>\<open>"track123"\<close>: every successful outcome
  carries a search result with \<^verbatim>\<open>uri = "spotify:track:track123"\<close>, whatever the artist;
  with the list \<^verbatim>\<open>["Artist X", ...]\<close> under \<^verbatim>\<open>artists\<close> the outcome is a success with
  artist \<^verbatim>\<open>"Artist X"\<close>; with no list under \<^verbatim>\<open>artists\<close>, the value under \<^verbatim>\<open>artist\<close> is
  stored as it is, so the scalar \<^verbatim>\<open>"Artist X"\<close> gives artist \<^verbatim>\<open>"Artist X"\<close>; with no list
  under \<^verbatim>\<open>artists\<close> and no \<^verbatim>\<open>artist\<close>, the outcome is a success with artist
  \<^verbatim>\<open>"Unknown Artist"\<close>.

  When the item has no \<^verbatim>\<open>name\<close> or no \<^verbatim>\<open>id\<close>, as the empty item \<^verbatim>\<open>{}\<close>, reading the
  missing key raises \<^verbatim>\<open>KeyError\<close> and the handler returns the error
  \<^verbatim>\<open>"Failed to parse search results"\<close>: there is no search result and no artist.
\<close>

theorem handle_search_action_track:
  assumes "call_tool_with_retry ses ''SpotifySearch'' params MAX_RETRIES tr = (Inr (Some result), tr')"
    and "\<not> isError result"
    and "json_loads L (first_text (content result) ''{}'') = Inr (JObj payload)"
    and "\<not> (dict_get params ''qtype'' = JStr ''album'' \<and> truthy (dict_get payload ''albums''))"
    and "map_of payload ''tracks'' = Some (JArr (JObj track # others))"
  shows
    "(map_of track ''name'' = Some name \<and> map_of track ''id'' = Some (JStr ''track123'') \<longrightarrow>
       (\<forall>outcome. fst (handle_search_action L ses params tr) = Inr outcome
                  \<and> \<not> has_key ''error'' outcome
          \<longrightarrow> (\<exists>artist. outcome =
                 [(''action'', JStr ''search''),
                  (''result'', JObj [(''name'', name), (''uri'', JStr ''spotify:track:track123''),
                                     (''id'', JStr ''track123''), (''artist'', artist),
                                     (''type'', JStr ''track'')])]))
       \<and>
       (map_of track ''artists'' = Some (JArr (JStr ''Artist X'' # artists_rest)) \<longrightarrow>
          handle_search_action L ses params tr =
            (Inr [(''action'', JStr ''search''),
                  (''result'', JObj [(''name'', name), (''uri'', JStr ''spotify:track:track123''),
                                     (''id'', JStr ''track123''), (''artist'', JStr ''Artist X''),
                                     (''type'', JStr ''track'')])], tr'))
       \<and>
       (\<not> is_list (dict_get track ''artists'') \<and> map_of track ''artist'' = Some artist_value \<longrightarrow>
          handle_search_action L ses params tr =
            (Inr [(''action'', JStr ''search''),
                  (''result'', JObj [(''name'', name), (''uri'', JStr ''spotify:track:track123''),
                                     (''id'', JStr ''track123''), (''artist'', artist_value),
                                     (''type'', JStr ''track'')])], tr'))
       \<and>
       (\<not> is_list (dict_get track ''artists'') \<and> map_of track ''artist'' = None \<longrightarrow>
          handle_search_action L ses params tr =
            (Inr [(''action'', JStr ''search''),
                  (''result'', JObj [(''name'', name), (''uri'', JStr ''spotify:track:track123''),
                                     (''id'', JStr ''track123''), (''artist'', JStr ''Unknown Artist''),
                                     (''type'', JStr ''track'')])], tr')))
     \<and>
     (map_of track ''name'' = None \<or> map_of track ''id'' = None \<longrightarrow>
        handle_search_action L ses params tr
          = (Inr (error_outcome ''Failed to parse search results''), tr'))"
proof -
  have unnamed: "map_of track ''name'' = None \<or> map_of track ''id'' = None \<longrightarrow>
        handle_search_action L ses params tr
          = (Inr (error_outcome ''Failed to parse search results''), tr')"
    using handle_search_ok[OF assms(1,2)] search_parse_track[OF assms(3,4,5)]
      search_track_unnamed[of track L]
    by simp
  show ?thesis
    using handle_search_track_named[OF assms, of name artists_rest artist_value] unnamed
    by blast
qed

theorem handle_search_action_track_witness:
  "handle_search_action sample_lib
     (answering \<lparr>isError = False, content = [TextContent track_text_list_artist]\<rparr>)
     [(''query'', JStr ''Song A''), (''qtype'', JStr ''track'')] []
   = (Inr [(''action'', JStr ''search''),
           (''result'', JObj [(''name'', JStr ''Song A''), (''uri'', JStr ''spotify:track:track123''),
                              (''id'', JStr ''track123''), (''artist'', JStr ''Artist X''),
                              (''type'', JStr ''track'')])],
      [Call ''SpotifySearch'' [(''query'', JStr ''Song A''), (''qtype'', JStr ''track'')]])
   \<and>
   handle_search_action sample_lib
     (answering \<lparr>isError = False, content = [TextContent track_text_scalar_artist]\<rparr>)
     [(''query'', JStr ''Song A''), (''qtype'', JStr ''track'')] []
   = (Inr [(''action'', JStr ''search''),
           (''result'', JObj [(''name'', JStr ''Song A''), (''uri'', JStr ''spotify:track:track123''),
                              (''id'', JStr ''track123''), (''artist'', JStr ''Artist X''),
                              (''type'', JStr ''track'')])],
      [Call ''SpotifySearch'' [(''query'', JStr ''Song A''), (''qtype'', JStr ''track'')]])
   \<and>
   handle_search_action sample_lib
     (answering \<lparr>isError = False, content = [TextContent track_text_no_artist]\<rparr>)
     [(''query'', JStr ''Song A''), (''qtype'', JStr ''track'')] []
   = (Inr [(''action'', JStr ''search''),
           (''result'', JObj [(''name'', JStr ''Song A''), (''uri'', JStr ''spotify:track:track123''),
                              (''id'', JStr ''track123''), (''artist'', JStr ''Unknown Artist''),
                              (''type'', JStr ''track'')])],
      [Call ''SpotifySearch'' [(''query'', JStr ''Song A''), (''qtype'', JStr ''track'')]])
   \<and>
   handle_search_action sample_lib
     (answering \<lparr>isError = False, content = [TextContent track_text_empty_item]\<rparr>)
     [(''query'', JStr ''Song A''), (''qtype'', JStr ''track'')] []
   = (Inr [(''error'', JStr ''Failed to parse search results'')],
      [Call ''SpotifySearch'' [(''query'', JStr ''Song A''), (''qtype'', JStr ''track'')]])"
proof -
  let ?params = "[(''query'', JStr ''Song A''), (''qtype'', JStr ''track'')]"
  let ?tr = "[Call ''SpotifySearch'' ?params]"
  have texts: "track_text_list_artist \<noteq> ''{}''" "track_text_scalar_artist \<noteq> ''{}''"
    "track_text_no_artist \<noteq> ''{}''" "track_text_scalar_artist \<noteq> track_text_list_artist"
    "track_text_no_artist \<noteq> track_text_list_artist"
    "track_text_no_artist \<noteq> track_text_scalar_artist"
    "track_text_empty_item \<noteq> ''{}''" "track_text_empty_item \<noteq> track_text_list_artist"
    "track_text_empty_item \<noteq> track_text_scalar_artist"
    "track_text_empty_item \<noteq> track_text_no_artist"
    by (simp_all add: track_text_list_artist_def track_text_scalar_artist_def track_text_no_artist_def
          track_text_empty_item_def)
  have a: "handle_search_action sample_lib
     (answering \<lparr>isError = False, content = [TextContent track_text_list_artist]\<rparr>) ?params []
     = (Inr [(''action'', JStr ''search''),
           (''result'', JObj [(''name'', JStr ''Song A''), (''uri'', JStr ''spotify:track:track123''),
                              (''id'', JStr ''track123''), (''artist'', JStr ''Artist X''),
                              (''type'', JStr ''track'')])], ?tr)"
    using handle_search_action_track
            [of "answering \<lparr>isError = False, content = [TextContent track_text_list_artist]\<rparr>"
                ?params "[]" "\<lparr>isError = False, content = [TextContent track_text_list_artist]\<rparr>"
                ?tr sample_lib
                "[(''tracks'', JArr [JObj [(''name'', JStr ''Song A''), (''id'', JStr ''track123''),
                                            (''artists'', JArr [JStr ''Artist X''])]])]"
                "[(''name'', JStr ''Song A''), (''id'', JStr ''track123''),
                  (''artists'', JArr [JStr ''Artist X''])]"
                "[]" "JStr ''Song A''" "[]" "JNull"]
    by (simp add: sample_lib_def sample_json_loads_def texts dict_get_def)
  have b: "handle_search_action sample_lib
     (answering \<lparr>isError = False, content = [TextContent track_text_scalar_artist]\<rparr>) ?params []
     = (Inr [(''action'', JStr ''search''),
           (''result'', JObj [(''name'', JStr ''Song A''), (''uri'', JStr ''spotify:track:track123''),
                              (''id'', JStr ''track123''), (''artist'', JStr ''Artist X''),
                              (''type'', JStr ''track'')])], ?tr)"
    using handle_search_action_track
            [of "answering \<lparr>isError = False, content = [TextContent track_text_scalar_artist]\<rparr>"
                ?params "[]" "\<lparr>isError = False, content = [TextContent track_text_scalar_artist]\<rparr>"
                ?tr sample_lib
                "[(''tracks'', JArr [JObj [(''name'', JStr ''Song A''), (''id'', JStr ''track123''),
                                            (''artist'', JStr ''Artist X'')]])]"
                "[(''name'', JStr ''Song A''), (''id'', JStr ''track123''),
                  (''artist'', JStr ''Artist X'')]"
                "[]" "JStr ''Song A''" "[]" "JStr ''Artist X''"]
    by (simp add: sample_lib_def sample_json_loads_def texts dict_get_def)
  have c: "handle_search_action sample_lib
     (answering \<lparr>isError = False, content = [TextContent track_text_no_artist]\<rparr>) ?params []
     = (Inr [(''action'', JStr ''search''),
           (''result'', JObj [(''name'', JStr ''Song A''), (''uri'', JStr ''spotify:track:track123''),
                              (''id'', JStr ''track123''), (''artist'', JStr ''Unknown Artist''),
                              (''type'', JStr ''track'')])], ?tr)"
    using handle_search_action_track
            [of "answering \<lparr>isError = False, content = [TextContent track_text_no_artist]\<rparr>"
                ?params "[]" "\<lparr>isError = False, content = [TextContent track_text_no_artist]\<rparr>"
                ?tr sample_lib
                "[(''tracks'', JArr [JObj [(''name'', JStr ''Song A''), (''id'', JStr ''track123'')]])]"
                "[(''name'', JStr ''Song A''), (''id'', JStr ''track123'')]"
                "[]" "JStr ''Song A''" "[]" "JNull"]
    by (simp add: sample_lib_def sample_json_loads_def texts dict_get_def)
  have d: "handle_search_action sample_lib
     (answering \<lparr>isError = False, content = [TextContent track_text_empty_item]\<rparr>) ?params []
     = (Inr [(''error'', JStr ''Failed to parse search results'')], ?tr)"
    using handle_search_action_track
            [of "answering \<lparr>isError = False, content = [TextContent track_text_empty_item]\<rparr>"
                ?params "[]" "\<lparr>isError = False, content = [TextContent track_text_empty_item]\<rparr>"
                ?tr sample_lib
                "[(''tracks'', JArr [JObj []])]" "[]" "[]" "JNull" "[]" "JNull"]
    by (simp add: sample_lib_def sample_json_loads_def texts dict_get_def error_outcome_def)
  from a b c d show ?thesis by simp
qed

text \<open>
  Claim C4 as worded fails at its boundary: for the chosen item \<^verbatim>\<open>{}\<close>, which carries no
  artist field at all, the handler does not yield a search result with artist
  \<^verbatim>\<open>"Unknown Artist"\<close>. The default artist is computed, then \<^verbatim>\<open>track["name"]\<close> raises
  \<^verbatim>\<open>KeyError\<close> and the outcome is the error \<^verbatim>\<open>"Failed to parse search results"\<close>, which
  has no \<^verbatim>\<open>result\<close>.
\<close>

theorem handle_search_action_empty_item_counterexample:
  "sample_json_loads track_text_empty_item = Inr (JObj [(''tracks'', JArr [JObj []])])
   \<and> first_artist (JObj []) = Inr (JStr ''Unknown Artist'')
   \<and> fst (handle_search_action sample_lib
            (answering \<lparr>isError = False, content = [TextContent track_text_empty_item]\<rparr>)
            [(''query'', JStr ''Song A''), (''qtype'', JStr ''track'')] [])
       = Inr [(''error'', JStr ''Failed to parse search results'')]
   \<and> map_of [(''error'', JStr ''Failed to parse search results'')] ''result'' = None"
proof -
  have texts: "track_text_empty_item \<noteq> ''{}''" "track_text_empty_item \<noteq> track_text_list_artist"
    "track_text_empty_item \<noteq> track_text_scalar_artist"
    "track_text_empty_item \<noteq> track_text_no_artist"
    by (simp_all add: track_text_list_artist_def track_text_scalar_artist_def track_text_no_artist_def
          track_text_empty_item_def)
  show ?thesis
    by (simp add: handle_search_action_def search_parse_def search_result_of_def first_artist_def
          loads_def sample_lib_def sample_json_loads_def texts py_get_def py_get_default_def
          py_in_def py_item_def py_first_def dict_get_default_def dict_get_def has_key_def
          error_outcome_def except_def quoted_def)
qed

text \<open>
  Claim C7, as the code has it. A search that is answered without error and whose
  content has no element with a text is decoded from the default text \<^verbatim>\<open>'{}'\<close>; the empty
  object has neither albums nor tracks, and the handler returns the error
  \<^verbatim>\<open>"No results found for query: "\<close> followed by the \<^verbatim>\<open>query\<close> parameter as a string.
\<close>

theorem handle_search_action_empty_content:
  assumes "call_tool_with_retry ses ''SpotifySearch'' params MAX_RETRIES tr = (Inr (Some result), tr')"
    and "\<not> isError result"
    and "\<forall>c\<in>set (content result). c = OtherContent"
    and "json_loads L ''{}'' = Inr (JObj [])"
  shows "handle_search_action L ses params tr =
           (Inr (error_outcome
                  (''No results found for query: '' @ py_str L (dict_get params ''query''))), tr')"
  using handle_search_ok[OF assms(1,2)] search_parse_empty[OF assms(4,3)] by simp

theorem handle_search_action_empty_content_witness:
  "handle_search_action sample_lib (answering \<lparr>isError = False, content = [OtherContent]\<rparr>)
     [(''query'', JStr ''nonexistent'')] []
   = (Inr [(''error'', JStr ''No results found for query: nonexistent'')],
      [Call ''SpotifySearch'' [(''query'', JStr ''nonexistent'')]])"
  using handle_search_action_empty_content
          [of "answering \<lparr>isError = False, content = [OtherContent]\<rparr>"
              "[(''query'', JStr ''nonexistent'')]" "[]"
              "\<lparr>isError = False, content = [OtherContent]\<rparr>"
              "[Call ''SpotifySearch'' [(''query'', JStr ''nonexistent'')]]" sample_lib]
  by (simp add: sample_lib_def sample_json_loads_def dict_get_def error_outcome_def)

text \<open>
  Claim C7 as worded fails: for a non-error result with empty content the handler does
  not return \<^verbatim>\<open>"No search results found"\<close>.
\<close>

theorem handle_search_action_empty_content_counterexample:
  "fst (handle_search_action sample_lib (answering \<lparr>isError = False, content = []\<rparr>)
          [(''query'', JStr ''nonexistent'')] [])
     = Inr [(''error'', JStr ''No results found for query: nonexistent'')]
   \<and> fst (handle_search_action sample_lib (answering \<lparr>isError = False, content = []\<rparr>)
          [(''query'', JStr ''nonexistent'')] [])
     \<noteq> Inr [(''error'', JStr ''No search results found'')]"
  by (simp add: handle_search_action_def search_parse_def loads_def sample_lib_def
        sample_json_loads_def py_get_def py_get_default_def dict_get_default_def dict_get_def
        error_outcome_def)

section \<open>Validation errors\<close>

text \<open>
  Claim C9. A queue step whose \<^verbatim>\<open>track_id\<close> parameter is absent (or otherwise false in
  Python's sense) while the context holds no search result returns the error
  \<^verbatim>\<open>"No track ID available for queue"\<close>; a playlist step with action \<^verbatim>\<open>get_tracks\<close> whose
  \<^verbatim>\<open>playlist_id\<close> is absent returns \<^verbatim>\<open>"playlist_id is required for get_tracks action"\<close>.
  In both cases the frame is handed back as it was: the trace has no new call or sleep,
  and parameters and context are unchanged. The same holds through the dispatcher.
\<close>

theorem validation_errors_make_no_call:
  "(\<not> truthy (dict_get (f_params fr) ''track_id'')
      \<and> \<not> truthy (dict_get (f_context fr) ''search_result'') \<longrightarrow>
      handle_queue_action L ses fr = (Inr (error_outcome ''No track ID available for queue''), fr)
      \<and> execute_single_action L ses ''SpotifyQueue'' fr
          = (Inr (error_outcome ''No track ID available for queue''), fr))
   \<and>
   (dict_get (f_params fr) ''action'' = JStr ''get_tracks''
      \<and> \<not> truthy (dict_get (f_params fr) ''playlist_id'') \<longrightarrow>
      handle_playlist_action L ses fr
        = (Inr (error_outcome ''playlist_id is required for get_tracks action''), fr)
      \<and> execute_single_action L ses ''SpotifyPlaylist'' fr
          = (Inr (error_outcome ''playlist_id is required for get_tracks action''), fr))"
  by (simp add: handle_queue_action_def handle_playlist_action_def execute_single_action_def)

theorem validation_errors_make_no_call_witness:
  "handle_queue_action sample_lib (raising (Exn OtherError ''unreachable''))
     \<lparr>f_params = [(''action'', JStr ''add'')],
      f_context = [(''search_result'', JNull), (''album_tracks'', JNull)],
      f_trace = []\<rparr>
   = (Inr [(''error'', JStr ''No track ID available for queue'')],
      \<lparr>f_params = [(''action'', JStr ''add'')],
       f_context = [(''search_result'', JNull), (''album_tracks'', JNull)],
       f_trace = []\<rparr>)
   \<and>
   handle_playlist_action sample_lib (raising (Exn OtherError ''unreachable''))
     \<lparr>f_params = [(''action'', JStr ''get_tracks'')],
      f_context = [(''search_result'', JNull), (''album_tracks'', JNull)],
      f_trace = []\<rparr>
   = (Inr [(''error'', JStr ''playlist_id is required for get_tracks action'')],
      \<lparr>f_params = [(''action'', JStr ''get_tracks'')],
       f_context = [(''search_result'', JNull), (''album_tracks'', JNull)],
       f_trace = []\<rparr>)"
  using validation_errors_make_no_call
          [of "\<lparr>f_params = [(''action'', JStr ''add'')],
                f_context = [(''search_result'', JNull), (''album_tracks'', JNull)],
                f_trace = []\<rparr>" sample_lib "raising (Exn OtherError ''unreachable'')"]
        validation_errors_make_no_call
          [of "\<lparr>f_params = [(''action'', JStr ''get_tracks'')],
                f_context = [(''search_result'', JNull), (''album_tracks'', JNull)],
                f_trace = []\<rparr>" sample_lib "raising (Exn OtherError ''unreachable'')"]
  by (simp add: dict_get_def error_outcome_def)

section \<open>What a handler does to its frame\<close>

lemma has_key_Nil [simp]: "has_key k [] = False"
  by (simp add: has_key_def)

lemma has_key_Cons [simp]: "has_key k ((k', v) # d) = (k = k' \<or> has_key k d)"
  by (auto simp: has_key_def)

lemma dict_get_Nil [simp]: "dict_get [] k = JNull"
  by (simp add: dict_get_def)

lemma dict_get_Cons [simp]: "dict_get ((k', v) # d) k = (if k = k' then v else dict_get d k)"
  by (simp add: dict_get_def)

lemma dict_get_error_outcome [simp]: "dict_get (error_outcome m) ''action'' = JNull"
  by (simp add: error_outcome_def)

lemma invoke_keeps:
  "invoke ses tool_name fr = (r, fr') \<Longrightarrow> f_params fr' = f_params fr \<and> f_context fr' = f_context fr"
  by (auto simp: invoke_def split: prod.splits sum.splits option.splits)

lemma get_info_parse_context:
  "get_info_parse L result context = Inr (outcome, context') \<Longrightarrow>
   (has_key ''error'' outcome \<and> context' = context) \<or>
   (\<exists>album_data tracks. outcome = [(''action'', JStr ''get_info''), (''result'', album_data)]
      \<and> context' = dict_set context ''album_tracks'' tracks)"
  unfolding get_info_parse_def
  by (cases "loads L (first_text (content result) ''{}'')")
     (auto simp: bind_eq_Inr except_def split: if_splits exn.splits sum.splits)

lemma get_info_context:
  assumes "handle_get_info_action L ses fr = (r, fr')"
  shows "(\<forall>e. r = Inl e \<longrightarrow> f_context fr' = f_context fr) \<and>
         (\<forall>outcome. r = Inr outcome \<and> has_key ''error'' outcome \<longrightarrow> f_context fr' = f_context fr) \<and>
         (\<forall>outcome. r = Inr outcome \<and> \<not> has_key ''error'' outcome \<longrightarrow>
            dict_get outcome ''action'' = JStr ''get_info'' \<and>
            (\<exists>tracks. f_context fr' = dict_set (f_context fr) ''album_tracks'' tracks))"
  using assms
  by (auto simp: handle_get_info_action_def Let_def
        split: sum.splits prod.splits if_splits
        dest!: invoke_keeps get_info_parse_context)

lemma search_parse_outcome:
  "search_parse L params result = Inr outcome \<Longrightarrow>
   has_key ''error'' outcome \<or> (\<exists>sr. outcome = [(''action'', JStr ''search''), (''result'', sr)])"
  unfolding search_parse_def
  by (auto simp: bind_eq_Inr split: if_splits)

lemma handle_search_outcome:
  "handle_search_action L ses params tr = (Inr outcome, tr') \<Longrightarrow>
   has_key ''error'' outcome \<or> (\<exists>sr. outcome = [(''action'', JStr ''search''), (''result'', sr)])"
  by (auto simp: handle_search_action_def except_def
        split: prod.splits sum.splits option.splits if_splits exn.splits
        dest: search_parse_outcome)

lemma playback_outcome_action:
  "playback_outcome L params sr = Inr outcome \<Longrightarrow> dict_get outcome ''action'' = JStr ''playback''"
  by (auto simp: playback_outcome_def bind_eq_Inr split: if_splits)

lemma queue_outcome_action:
  "queue_outcome L sr = Inr outcome \<Longrightarrow> dict_get outcome ''action'' = JStr ''queue''"
  by (auto simp: queue_outcome_def bind_eq_Inr split: if_splits)

lemma playback_frame:
  assumes "handle_playback_action L ses fr = (r, fr')"
  shows "f_context fr' = f_context fr"
    and "\<And>outcome. r = Inr outcome \<Longrightarrow> \<not> has_key ''error'' outcome \<Longrightarrow>
           dict_get outcome ''action'' = JStr ''playback''"
  using assms
  by (auto simp: handle_playback_action_def Let_def
        split: sum.splits prod.splits if_splits
        dest!: invoke_keeps playback_outcome_action)

lemma queue_frame:
  assumes "handle_queue_action L ses fr = (r, fr')"
  shows "f_context fr' = f_context fr"
    and "\<And>outcome. r = Inr outcome \<Longrightarrow> \<not> has_key ''error'' outcome \<Longrightarrow>
           dict_get outcome ''action'' = JStr ''queue''"
  using assms
  by (auto simp: handle_queue_action_def Let_def
        split: sum.splits prod.splits if_splits
        dest!: invoke_keeps queue_outcome_action)

lemma invoke_case:
  assumes "(case invoke ses t fr of (Inl e, fr') \<Rightarrow> (Inl e, fr')
            | (Inr result, fr') \<Rightarrow> (g result, fr')) = (r, fr'')"
  shows "f_params fr'' = f_params fr \<and> f_context fr'' = f_context fr
         \<and> ((\<exists>e. r = Inl e) \<or> (\<exists>result. r = g result))"
proof (cases "invoke ses t fr")
  case (Pair a b)
  with invoke_keeps[OF Pair] assms show ?thesis
    by (cases a) auto
qed

lemma playlist_get:
  assumes "dict_get (f_params fr) ''action'' = JStr ''get''"
  shows "handle_playlist_action L ses fr =
        (case invoke ses ''SpotifyPlaylist'' fr of
           (Inl e, fr') \<Rightarrow> (Inl e, fr')
         | (Inr result, fr') \<Rightarrow>
             (if isError result then Inr (error_outcome ''Failed to get playlists'')
              else
               except_Exception
                  (bind (loads L (first_text (content result) ''{}'')) (\<lambda>playlists.
                   bind (py_len playlists) (\<lambda>n.
                     Inr [(''action'', JStr ''playlist_get''),
                          (''message'', JStr (''Found '' @ show_nat n @ '' playlists'')),
                          (''playlists'', playlists)])))
                  (Inr (error_outcome ''Failed to parse playlists'')), fr'))"
  using assms
  by (auto simp add: handle_playlist_action_def Let_def split: prod.splits sum.splits)

lemma parsed_list_outcome:
  assumes "except_Exception
             (bind (loads L text) (\<lambda>v. bind (py_len v) (\<lambda>n. Inr [(''action'', JStr a), (''message'', m n), (k, v)])))
             (Inr (error_outcome msg)) = Inr outcome"
    and "\<not> has_key ''error'' outcome"
  shows "dict_get outcome ''action'' = JStr a"
proof (cases "loads L text")
  case (Inl e)
  with assms show ?thesis by auto
next
  case (Inr v)
  with assms show ?thesis by (cases "py_len v") auto
qed


lemma playlist_get_tracks:
  assumes "dict_get (f_params fr) ''action'' = JStr ''get_tracks''"
  shows "handle_playlist_action L ses fr =
        (if \<not> truthy (dict_get (f_params fr) ''playlist_id'')
         then (Inr (error_outcome ''playlist_id is required for get_tracks action''), fr)
         else
          (case invoke ses ''SpotifyPlaylist'' fr of
             (Inl e, fr') \<Rightarrow> (Inl e, fr')
           | (Inr result, fr') \<Rightarrow>
               (if isError result then Inr (error_outcome ''Failed to get playlist tracks'')
                else
                 except_Exception
                    (bind (loads L (first_text (content result) ''{}'')) (\<lambda>tracks.
                     bind (py_len tracks) (\<lambda>n.
                       Inr [(''action'', JStr ''playlist_get_tracks''),
                            (''message'', JStr (''Found '' @ show_nat n @ '' tracks in playlist'')),
                            (''tracks'', tracks)])))
                    (Inr (error_outcome ''Failed to parse playlist tracks'')), fr')))"
  using assms
  by (auto simp add: handle_playlist_action_def Let_def split: prod.splits sum.splits)

lemma playlist_add_remove:
  assumes "dict_get (f_params fr) ''action'' = JStr a" "a = ''add_tracks'' \<or> a = ''remove_tracks''"
  shows "handle_playlist_action L ses fr =
        (if \<not> truthy (dict_get (f_params fr) ''playlist_id'') \<or> \<not> truthy (dict_get (f_params fr) ''track_ids'')
         then (Inr (error_outcome (''playlist_id and track_ids are required for '' @ a @ '' action'')), fr)
         else
          (case invoke ses ''SpotifyPlaylist'' fr of
             (Inl e, fr') \<Rightarrow> (Inl e, fr')
           | (Inr result, fr') \<Rightarrow>
               (if isError result
                then Inr (error_outcome (''Failed to '' @ underscores_to_spaces a))
                else Inr [(''action'', JStr (''playlist_'' @ a)),
                       (''message'', JStr (''Tracks ''
                           @ (if a = ''add_tracks'' then ''added to'' else ''removed from'')
                           @ '' playlist''))], fr')))"
  using assms
  by (auto simp add: handle_playlist_action_def Let_def split: prod.splits sum.splits)

lemma playlist_change_details:
  assumes "dict_get (f_params fr) ''action'' = JStr ''change_details''"
  shows "handle_playlist_action L ses fr =
        (if \<not> truthy (dict_get (f_params fr) ''playlist_id'')
           \<or> (\<not> truthy (dict_get (f_params fr) ''name'') \<and> \<not> truthy (dict_get (f_params fr) ''description''))
         then (Inr (error_outcome
                    ''playlist_id and at least one of name or description are required''), fr)
         else
          (case invoke ses ''SpotifyPlaylist'' fr of
             (Inl e, fr') \<Rightarrow> (Inl e, fr')
           | (Inr result, fr') \<Rightarrow>
               (if isError result then Inr (error_outcome ''Failed to change playlist details'')
                else Inr [(''action'', JStr ''playlist_change_details''),
                       (''message'', JStr ''Playlist details updated'')], fr')))"
  using assms
  by (auto simp add: handle_playlist_action_def Let_def split: prod.splits sum.splits)

lemma playlist_other:
  assumes "dict_get (f_params fr) ''action'' \<noteq> JStr ''get''"
    "dict_get (f_params fr) ''action'' \<noteq> JStr ''get_tracks''"
    "dict_get (f_params fr) ''action'' \<noteq> JStr ''add_tracks''"
    "dict_get (f_params fr) ''action'' \<noteq> JStr ''remove_tracks''"
    "dict_get (f_params fr) ''action'' \<noteq> JStr ''change_details''"
  shows "handle_playlist_action L ses fr =
          (Inr (error_outcome (''Unknown playlist action: ''
                  @ py_str L (dict_get (f_params fr) ''action''))), fr)"
  using assms by (simp add: handle_playlist_action_def Let_def)

declare show_nat.simps [simp del]

lemma parsed_list_action:
  "except_Exception
     (bind (loads L text) (\<lambda>v. bind (py_len v) (\<lambda>n.
        Inr [(''action'', JStr a), (''message'', m n), (k, v)])))
     (Inr (error_outcome msg)) = Inr outcome \<Longrightarrow>
   has_key ''error'' outcome \<or> dict_get outcome ''action'' = JStr a"
proof (cases "loads L text")
  case (Inl e)
  assume "except_Exception
     (bind (loads L text) (\<lambda>v. bind (py_len v) (\<lambda>n.
        Inr [(''action'', JStr a), (''message'', m n), (k, v)])))
     (Inr (error_outcome msg)) = Inr outcome"
  with Inl show ?thesis by auto
next
  case (Inr v)
  assume "except_Exception
     (bind (loads L text) (\<lambda>v. bind (py_len v) (\<lambda>n.
        Inr [(''action'', JStr a), (''message'', m n), (k, v)])))
     (Inr (error_outcome msg)) = Inr outcome"
  with Inr show ?thesis by (cases "py_len v") auto
qed

lemma invoke_branch:
  assumes "(case invoke ses t fr of (Inl e, fr') \<Rightarrow> (Inl e, fr')
            | (Inr result, fr') \<Rightarrow> (g result, fr')) = (r, fr'')"
    and "\<And>result outcome. g result = Inr outcome \<Longrightarrow> \<not> has_key ''error'' outcome \<Longrightarrow> P outcome"
  shows "f_context fr'' = f_context fr \<and> f_params fr'' = f_params fr \<and>
         (\<forall>outcome. r = Inr outcome \<and> \<not> has_key ''error'' outcome \<longrightarrow> P outcome)"
  using invoke_case[OF assms(1)] assms(2) by auto

lemma playlist_frame:
  assumes "handle_playlist_action L ses fr = (r, fr')"
  shows "f_context fr' = f_context fr \<and> f_params fr' = f_params fr \<and>
         (\<forall>outcome. r = Inr outcome \<and> \<not> has_key ''error'' outcome \<longrightarrow>
           dict_get outcome ''action'' \<noteq> JStr ''search'' \<and> dict_get outcome ''action'' \<noteq> JStr ''get_info'')"
proof -
  let ?a = "dict_get (f_params fr) ''action''"
  consider (get) "?a = JStr ''get''" | (get_tracks) "?a = JStr ''get_tracks''"
    | (add_remove) a where "?a = JStr a" "a = ''add_tracks'' \<or> a = ''remove_tracks''"
    | (change) "?a = JStr ''change_details''"
    | (other) "?a \<noteq> JStr ''get''" "?a \<noteq> JStr ''get_tracks''" "?a \<noteq> JStr ''add_tracks''"
        "?a \<noteq> JStr ''remove_tracks''" "?a \<noteq> JStr ''change_details''"
    by blast
  then show ?thesis
  proof cases
    case get
    from assms have eq: "(case invoke ses ''SpotifyPlaylist'' fr of
           (Inl e, fr') \<Rightarrow> (Inl e, fr')
         | (Inr result, fr') \<Rightarrow>
             (if isError result then Inr (error_outcome ''Failed to get playlists'')
              else
               except_Exception
                  (bind (loads L (first_text (content result) ''{}'')) (\<lambda>playlists.
                   bind (py_len playlists) (\<lambda>n.
                     Inr [(''action'', JStr ''playlist_get''),
                          (''message'', JStr (''Found '' @ show_nat n @ '' playlists'')),
                          (''playlists'', playlists)])))
                  (Inr (error_outcome ''Failed to parse playlists'')), fr')) = (r, fr')"
      by (simp add: playlist_get[OF get])
    show ?thesis
      by (rule invoke_branch[OF eq]) (auto split: if_splits dest!: parsed_list_action)
  next
    case get_tracks
    show ?thesis
    proof (cases "truthy (dict_get (f_params fr) ''playlist_id'')")
      case False
      with assms show ?thesis by (auto simp: playlist_get_tracks[OF get_tracks])
    next
      case True
      with assms have eq: "(case invoke ses ''SpotifyPlaylist'' fr of
             (Inl e, fr') \<Rightarrow> (Inl e, fr')
           | (Inr result, fr') \<Rightarrow>
               (if isError result then Inr (error_outcome ''Failed to get playlist tracks'')
                else
                 except_Exception
                    (bind (loads L (first_text (content result) ''{}'')) (\<lambda>tracks.
                     bind (py_len tracks) (\<lambda>n.
                       Inr [(''action'', JStr ''playlist_get_tracks''),
                            (''message'', JStr (''Found '' @ show_nat n @ '' tracks in playlist'')),
                            (''tracks'', tracks)])))
                    (Inr (error_outcome ''Failed to parse playlist tracks'')), fr')) = (r, fr')"
        by (simp add: playlist_get_tracks[OF get_tracks])
      show ?thesis
        by (rule invoke_branch[OF eq]) (auto split: if_splits dest!: parsed_list_action)
    qed
  next
    case add_remove
    show ?thesis
    proof (cases "\<not> truthy (dict_get (f_params fr) ''playlist_id'') \<or> \<not> truthy (dict_get (f_params fr) ''track_ids'')")
      case True
      with assms show ?thesis by (auto simp: playlist_add_remove[OF add_remove])
    next
      case False
      with assms have eq: "(case invoke ses ''SpotifyPlaylist'' fr of
             (Inl e, fr') \<Rightarrow> (Inl e, fr')
           | (Inr result, fr') \<Rightarrow>
               (if isError result
                then Inr (error_outcome (''Failed to '' @ underscores_to_spaces a))
                else Inr [(''action'', JStr (''playlist_'' @ a)),
                       (''message'', JStr (''Tracks ''
                           @ (if a = ''add_tracks'' then ''added to'' else ''removed from'')
                           @ '' playlist''))], fr')) = (r, fr')"
        by (simp add: playlist_add_remove[OF add_remove])
      show ?thesis
        by (rule invoke_branch[OF eq]) (auto split: if_splits)
    qed
  next
    case change
    show ?thesis
    proof (cases "\<not> truthy (dict_get (f_params fr) ''playlist_id'')
           \<or> (\<not> truthy (dict_get (f_params fr) ''name'') \<and> \<not> truthy (dict_get (f_params fr) ''description''))")
      case True
      with assms show ?thesis by (auto simp: playlist_change_details[OF change])
    next
      case False
      with assms have eq: "(case invoke ses ''SpotifyPlaylist'' fr of
             (Inl e, fr') \<Rightarrow> (Inl e, fr')
           | (Inr result, fr') \<Rightarrow>
               (if isError result then Inr (error_outcome ''Failed to change playlist details'')
                else Inr [(''action'', JStr ''playlist_change_details''),
                       (''message'', JStr ''Playlist details updated'')], fr')) = (r, fr')"
        by (auto simp add: playlist_change_details[OF change] split: if_splits)
      show ?thesis
        by (rule invoke_branch[OF eq]) (auto split: if_splits)
    qed
  next
    case other
    with assms show ?thesis by (auto simp: playlist_other)
  qed
qed

section \<open>The dispatcher\<close>

lemma dispatch_search:
  "execute_single_action L ses ''SpotifySearch'' fr = (r, fr') \<Longrightarrow>
   f_context fr' = f_context fr \<and> f_params fr' = f_params fr \<and>
   (\<forall>outcome. r = Inr outcome \<and> \<not> has_key ''error'' outcome \<longrightarrow>
      (\<exists>sr. outcome = [(''action'', JStr ''search''), (''result'', sr)]))"
  by (auto simp: execute_single_action_def split: prod.splits dest: handle_search_outcome)

lemma dispatch_context:
  assumes "execute_single_action L ses tool_name fr = (r, fr')"
  shows "(\<forall>e. r = Inl e \<longrightarrow> f_context fr' = f_context fr)
     \<and> (\<forall>outcome. r = Inr outcome \<and> has_key ''error'' outcome \<longrightarrow> f_context fr' = f_context fr)
     \<and> (\<forall>outcome. r = Inr outcome \<and> \<not> has_key ''error'' outcome \<longrightarrow>
          (if tool_name = ''SpotifySearch''
           then f_context fr' = f_context fr \<and> dict_get outcome ''action'' = JStr ''search''
           else if tool_name = ''SpotifyGetInfo''
           then dict_get outcome ''action'' = JStr ''get_info'' \<and>
                (\<exists>tracks. f_context fr' = dict_set (f_context fr) ''album_tracks'' tracks)
           else f_context fr' = f_context fr \<and> dict_get outcome ''action'' \<noteq> JStr ''search''
                \<and> dict_get outcome ''action'' \<noteq> JStr ''get_info''))"
proof -
  consider (search) "tool_name = ''SpotifySearch''" | (info) "tool_name = ''SpotifyGetInfo''"
    | (playback) "tool_name = ''SpotifyPlayback''" | (queue) "tool_name = ''SpotifyQueue''"
    | (playlist) "tool_name = ''SpotifyPlaylist''"
    | (other) "tool_name \<noteq> ''SpotifySearch''" "tool_name \<noteq> ''SpotifyGetInfo''"
        "tool_name \<noteq> ''SpotifyPlayback''" "tool_name \<noteq> ''SpotifyQueue''"
        "tool_name \<noteq> ''SpotifyPlaylist''"
    by blast
  then show ?thesis
  proof cases
    case search
    with dispatch_search[of L ses fr r fr'] assms show ?thesis by auto
  next
    case info
    with assms have "handle_get_info_action L ses fr = (r, fr')"
      by (simp add: execute_single_action_def)
    from get_info_context[OF this] info show ?thesis by auto
  next
    case playback
    with assms have "handle_playback_action L ses fr = (r, fr')"
      by (simp add: execute_single_action_def)
    from playback_frame[OF this] playback show ?thesis by auto
  next
    case queue
    with assms have "handle_queue_action L ses fr = (r, fr')"
      by (simp add: execute_single_action_def)
    from queue_frame[OF this] queue show ?thesis by auto
  next
    case playlist
    with assms have "handle_playlist_action L ses fr = (r, fr')"
      by (simp add: execute_single_action_def)
    from playlist_frame[OF this] playlist show ?thesis by auto
  next
    case other
    with assms show ?thesis by (auto simp: execute_single_action_def)
  qed
qed

section \<open>One iteration of the loop and the context\<close>

lemma dict_get_set [simp]: "dict_get (dict_set d k v) k = v"
  by (simp add: dict_get_def dict_set_def update_conv')

lemma dict_get_set_other: "k' \<noteq> k \<Longrightarrow> dict_get (dict_set d k v) k' = dict_get d k'"
  by (simp add: dict_get_def dict_set_def update_conv')

lemma keys_dict_set: "has_key k d \<Longrightarrow> map fst (dict_set d k v) = map fst d"
  by (simp add: has_key_def dict_set_def update_keys map_of_eq_None_iff)

lemma exec_step_context:
  assumes "execute_single_action L ses (a_tool_name act) (frame_of act st) = (r, fr)"
  shows
    "(\<forall>e. r = Inl e \<longrightarrow> st_context (state_of (exec_step L ses act st)) = st_context st)
     \<and>
     (\<forall>outcome. r = Inr outcome \<and> has_key ''error'' outcome \<longrightarrow>
        st_context (state_of (exec_step L ses act st)) = st_context st)
     \<and>
     (\<forall>outcome. r = Inr outcome \<and> \<not> has_key ''error'' outcome \<longrightarrow>
        (if a_tool_name act = ''SpotifySearch'' then
           st_context (state_of (exec_step L ses act st))
             = dict_set (st_context st) ''search_result'' (dict_get outcome ''result'')
           \<and> dict_get (st_context (state_of (exec_step L ses act st))) ''search_result''
               = dict_get outcome ''result''
           \<and> (\<forall>k. k \<noteq> ''search_result'' \<longrightarrow>
                 dict_get (st_context (state_of (exec_step L ses act st))) k
                   = dict_get (st_context st) k)
           \<and> (has_key ''search_result'' (st_context st) \<longrightarrow>
                 map fst (st_context (state_of (exec_step L ses act st)))
                   = map fst (st_context st))
         else if a_tool_name act = ''SpotifyGetInfo'' then
           (\<exists>tracks. st_context (state_of (exec_step L ses act st))
              = dict_set (dict_set (st_context st) ''album_tracks'' tracks) ''album_info''
                  (dict_get outcome ''result''))
         else st_context (state_of (exec_step L ses act st)) = st_context st))"
proof (cases r)
  case (Inl e)
  with dispatch_context[OF assms] assms show ?thesis
    by (simp add: exec_step_def frame_of_def)
next
  case (Inr outcome)
  have ctx: "f_context (frame_of act st) = st_context st"
    by (simp add: frame_of_def)
  show ?thesis
  proof (cases "has_key ''error'' outcome")
    case True
    with Inr dispatch_context[OF assms] assms show ?thesis
      by (simp add: exec_step_def ctx update_context_def Let_def)
  next
    case False
    note ok = this
    from Inr ok dispatch_context[OF assms, unfolded ctx]
    have d: "if a_tool_name act = ''SpotifySearch''
           then f_context fr = st_context st \<and> dict_get outcome ''action'' = JStr ''search''
           else if a_tool_name act = ''SpotifyGetInfo''
           then dict_get outcome ''action'' = JStr ''get_info'' \<and>
                (\<exists>tracks. f_context fr = dict_set (st_context st) ''album_tracks'' tracks)
           else f_context fr = st_context st \<and> dict_get outcome ''action'' \<noteq> JStr ''search''
                \<and> dict_get outcome ''action'' \<noteq> JStr ''get_info''"
      by simp
    have step: "st_context (state_of (exec_step L ses act st))
                  = update_context outcome (f_context fr)"
      using assms Inr ok by (simp add: exec_step_def Let_def)
    consider (search) "a_tool_name act = ''SpotifySearch''"
      | (info) "a_tool_name act \<noteq> ''SpotifySearch''" "a_tool_name act = ''SpotifyGetInfo''"
      | (other) "a_tool_name act \<noteq> ''SpotifySearch''" "a_tool_name act \<noteq> ''SpotifyGetInfo''"
      by blast
    then show ?thesis
    proof cases
      case search
      with d Inr ok show ?thesis
        by (simp add: step update_context_def dict_get_set_other keys_dict_set)
    next
      case info
      with d obtain tracks where "f_context fr = dict_set (st_context st) ''album_tracks'' tracks"
        and "dict_get outcome ''action'' = JStr ''get_info''"
        by auto
      with info Inr ok show ?thesis by (auto simp add: step update_context_def)
    next
      case other
      with d Inr ok show ?thesis by (simp add: step update_context_def)
    qed
  qed
qed


text \<open>
  Claim C5. One iteration of the loop dispatches an action in a state; \<open>r\<close> is what the
  dispatcher returns. If the step raises, or if its outcome is an error record, the
  context after the step is the context before it. If the outcome is a success: a
  search step sets the entry \<^verbatim>\<open>search_result\<close> to the outcome's \<^verbatim>\<open>result\<close> and changes
  nothing else, so that the entry read afterwards is this result, whatever an earlier
  search had stored, and (the entry being present from the start) the context has the
  same keys as before; an info step sets \<^verbatim>\<open>album_tracks\<close> and \<^verbatim>\<open>album_info\<close>; a step of
  any other kind leaves the context as it was.
\<close>

theorem context_mutated_only_by_successful_search_and_info:
  assumes "execute_single_action L ses (a_tool_name act) (frame_of act st) = (r, fr)"
  shows
    "(\<forall>e. r = Inl e \<longrightarrow> st_context (state_of (exec_step L ses act st)) = st_context st)
     \<and>
     (\<forall>outcome. r = Inr outcome \<and> has_key ''error'' outcome \<longrightarrow>
        st_context (state_of (exec_step L ses act st)) = st_context st)
     \<and>
     (\<forall>outcome. r = Inr outcome \<and> \<not> has_key ''error'' outcome \<longrightarrow>
        (if a_tool_name act = ''SpotifySearch'' then
           st_context (state_of (exec_step L ses act st))
             = dict_set (st_context st) ''search_result'' (dict_get outcome ''result'')
           \<and> dict_get (st_context (state_of (exec_step L ses act st))) ''search_result''
               = dict_get outcome ''result''
           \<and> (\<forall>k. k \<noteq> ''search_result'' \<longrightarrow>
                 dict_get (st_context (state_of (exec_step L ses act st))) k
                   = dict_get (st_context st) k)
           \<and> (has_key ''search_result'' (st_context st) \<longrightarrow>
                 map fst (st_context (state_of (exec_step L ses act st)))
                   = map fst (st_context st))
         else if a_tool_name act = ''SpotifyGetInfo'' then
           (\<exists>tracks. st_context (state_of (exec_step L ses act st))
              = dict_set (dict_set (st_context st) ''album_tracks'' tracks) ''album_info''
                  (dict_get outcome ''result''))
         else st_context (state_of (exec_step L ses act st)) = st_context st))"
  by (rule exec_step_context[OF assms])

theorem context_mutated_only_by_successful_search_and_info_witness:
  "st_context (state_of (exec_step sample_lib
       (answering \<lparr>isError = False, content = [TextContent track_text_no_artist]\<rparr>)
       \<lparr>a_tool_name = ''SpotifySearch'', a_params = [(''query'', JStr ''Song A'')]\<rparr>
       \<lparr>st_results = [], 
        st_context = [(''search_result'',
                        JObj [(''name'', JStr ''Song B''), (''uri'', JStr ''spotify:track:track456''),
                              (''id'', JStr ''track456''), (''artist'', JStr ''Artist Y''),
                              (''type'', JStr ''track'')]),
                      (''album_tracks'', JNull)],
        st_trace = [], st_dispatched = []\<rparr>))
     = [(''search_result'',
          JObj [(''name'', JStr ''Song A''), (''uri'', JStr ''spotify:track:track123''),
                (''id'', JStr ''track123''), (''artist'', JStr ''Unknown Artist''),
                (''type'', JStr ''track'')]),
        (''album_tracks'', JNull)]
   \<and>
   st_context (state_of (exec_step sample_lib
       (answering \<lparr>isError = True, content = []\<rparr>)
       \<lparr>a_tool_name = ''SpotifySearch'', a_params = [(''query'', JStr ''Song A'')]\<rparr>
       \<lparr>st_results = [], 
        st_context = [(''search_result'',
                        JObj [(''name'', JStr ''Song B''), (''uri'', JStr ''spotify:track:track456''),
                              (''id'', JStr ''track456''), (''artist'', JStr ''Artist Y''),
                              (''type'', JStr ''track'')]),
                      (''album_tracks'', JNull)],
        st_trace = [], st_dispatched = []\<rparr>))
     = [(''search_result'',
          JObj [(''name'', JStr ''Song B''), (''uri'', JStr ''spotify:track:track456''),
                (''id'', JStr ''track456''), (''artist'', JStr ''Artist Y''),
                (''type'', JStr ''track'')]),
        (''album_tracks'', JNull)]"
proof -
  let ?act = "\<lparr>a_tool_name = ''SpotifySearch'', a_params = [(''query'', JStr ''Song A'')]\<rparr>"
  let ?old = "JObj [(''name'', JStr ''Song B''), (''uri'', JStr ''spotify:track:track456''),
                    (''id'', JStr ''track456''), (''artist'', JStr ''Artist Y''),
                    (''type'', JStr ''track'')]"
  let ?new = "JObj [(''name'', JStr ''Song A''), (''uri'', JStr ''spotify:track:track123''),
                    (''id'', JStr ''track123''), (''artist'', JStr ''Unknown Artist''),
                    (''type'', JStr ''track'')]"
  let ?st = "\<lparr>st_results = [], st_context = [(''search_result'', ?old), (''album_tracks'', JNull)],
              st_trace = [], st_dispatched = []\<rparr>"
  let ?tr = "[Call ''SpotifySearch'' [(''query'', JStr ''Song A'')]]"
  let ?fr = "\<lparr>f_params = [(''query'', JStr ''Song A'')],
              f_context = [(''search_result'', ?old), (''album_tracks'', JNull)], f_trace = ?tr\<rparr>"
  have texts: "track_text_no_artist \<noteq> ''{}''" "track_text_no_artist \<noteq> track_text_list_artist"
    "track_text_no_artist \<noteq> track_text_scalar_artist"
    by (simp_all add: track_text_list_artist_def track_text_scalar_artist_def track_text_no_artist_def)
  have found: "execute_single_action sample_lib
       (answering \<lparr>isError = False, content = [TextContent track_text_no_artist]\<rparr>)
       (a_tool_name ?act) (frame_of ?act ?st)
     = (Inr [(''action'', JStr ''search''), (''result'', ?new)], ?fr)"
    by (simp add: execute_single_action_def frame_of_def handle_search_action_def search_parse_def
          search_result_of_def first_artist_def loads_def sample_lib_def sample_json_loads_def texts
          py_get_def py_get_default_def py_in_def py_item_def py_first_def dict_get_default_def
          dict_get_def has_key_def except_def)
  have failed: "execute_single_action sample_lib (answering \<lparr>isError = True, content = []\<rparr>)
       (a_tool_name ?act) (frame_of ?act ?st)
     = (Inr [(''error'', JStr ''No search results found'')], ?fr)"
    by (simp add: execute_single_action_def frame_of_def handle_search_action_def error_outcome_def)
  show ?thesis
    using context_mutated_only_by_successful_search_and_info[OF found]
      context_mutated_only_by_successful_search_and_info[OF failed]
    by (simp add: has_key_def dict_get_def dict_set_def)
qed

section \<open>A failed search ends the run\<close>

lemma state_before_loop:
  "state_before L ses acts n st = Some st' \<Longrightarrow>
   exec_loop L ses acts st = exec_loop L ses (drop n acts) st'"
  by (induction L ses acts n st rule: state_before.induct)
     (auto split: step_result.splits)

lemma exec_step_dispatched:
  "length (st_dispatched (state_of (exec_step L ses act st))) = Suc (length (st_dispatched st))"
  by (simp add: exec_step_def Let_def split: prod.splits sum.splits)

lemma state_before_dispatched:
  "state_before L ses acts n st = Some st' \<Longrightarrow>
   length (st_dispatched st') = length (st_dispatched st) + n"
proof (induction L ses acts n st rule: state_before.induct)
  case (3 L ses act rest n st)
  then obtain st1 where s: "exec_step L ses act st = Next st1"
    and r: "state_before L ses rest n st1 = Some st'"
    by (auto split: step_result.splits)
  from exec_step_dispatched[of L ses act st] s
  have "length (st_dispatched st1) = Suc (length (st_dispatched st))" by simp
  with 3(1)[OF s r] show ?case by simp
qed simp_all

lemma exec_loop_stopped:
  assumes "n < length acts"
    and "execute_single_action L ses (a_tool_name (acts ! n)) (frame_of (acts ! n) st) = (Inr outcome, fr)"
    and "has_key ''error'' outcome" and "a_tool_name (acts ! n) = ''SpotifySearch''"
  shows "exec_loop L ses (drop n acts) st =
           (Inr outcome,
            st\<lparr>st_results := st_results st @ [outcome], st_context := f_context fr,
                st_trace := f_trace fr,
                st_dispatched := st_dispatched st @ [(acts ! n)\<lparr>a_params := f_params fr\<rparr>]\<rparr>)"
proof -
  have "drop n acts = acts ! n # drop (Suc n) acts"
    using assms(1) by (simp add: Cons_nth_drop_Suc)
  moreover have "exec_step L ses (acts ! n) st =
     Stopped outcome (st\<lparr>st_results := st_results st @ [outcome], st_context := f_context fr,
                st_trace := f_trace fr,
                st_dispatched := st_dispatched st @ [(acts ! n)\<lparr>a_params := f_params fr\<rparr>]\<rparr>)"
    using assms(2,3,4) by (simp add: exec_step_def Let_def)
  ultimately show ?thesis by simp
qed


text \<open>
  Claim C1. The loop reaches its \<open>n\<close>-th action (counted from 0) in state \<open>st\<close>; the
  action is a search and the dispatcher returns for it an outcome that is an error
  record. Then the executor's response is that outcome itself, not a formatted
  response, and the run ends in the state this step leaves: the outcome is the last of
  the results, the actions dispatched are the \<open>n\<close> before and this one, so no later
  action is dispatched, and the trace of calls and sleeps is the one the failing step
  left. For \<open>n = 0\<close>, where the first hypothesis always holds, the dispatcher is called
  exactly once.
\<close>

theorem failed_search_is_returned_at_once:
  assumes "state_before L ses actions n (initial_state tr) = Some st"
    and "n < length actions"
    and "a_tool_name (actions ! n) = ''SpotifySearch''"
    and "execute_single_action L ses ''SpotifySearch'' (frame_of (actions ! n) st) = (Inr outcome, fr)"
    and "has_key ''error'' outcome"
  shows
    "execute_spotify_actions L ses actions tr =
       (outcome,
        st\<lparr>st_results := st_results st @ [outcome], st_context := f_context fr,
            st_trace := f_trace fr,
            st_dispatched := st_dispatched st @ [(actions ! n)\<lparr>a_params := f_params fr\<rparr>]\<rparr>)
     \<and> length (st_dispatched (snd (execute_spotify_actions L ses actions tr))) = Suc n
     \<and> st_dispatched (snd (execute_spotify_actions L ses actions tr))
         = st_dispatched st @ [(actions ! n)\<lparr>a_params := f_params fr\<rparr>]
     \<and> st_trace (snd (execute_spotify_actions L ses actions tr)) = f_trace fr"
proof -
  have run: "execute_single_action L ses (a_tool_name (actions ! n)) (frame_of (actions ! n) st)
               = (Inr outcome, fr)"
    using assms(3,4) by simp
  have "exec_loop L ses actions (initial_state tr) = exec_loop L ses (drop n actions) st"
    by (rule state_before_loop[OF assms(1)])
  with exec_loop_stopped[OF assms(2) run assms(5,3)]
  have resp: "execute_spotify_actions L ses actions tr =
       (outcome,
        st\<lparr>st_results := st_results st @ [outcome], st_context := f_context fr,
            st_trace := f_trace fr,
            st_dispatched := st_dispatched st @ [(actions ! n)\<lparr>a_params := f_params fr\<rparr>]\<rparr>)"
    by (simp add: execute_spotify_actions_def)
  have "length (st_dispatched st) = n"
    using state_before_dispatched[OF assms(1)] by (simp add: initial_state_def)
  with resp show ?thesis by simp
qed

theorem failed_search_is_returned_at_once_witness:
  "execute_spotify_actions sample_lib (answering \<lparr>isError = True, content = []\<rparr>)
     [\<lparr>a_tool_name = ''SpotifySearch'', a_params = [(''query'', JStr ''Song A'')]\<rparr>,
      \<lparr>a_tool_name = ''SpotifyPlayback'', a_params = [(''action'', JStr ''start'')]\<rparr>] []
   = ([(''error'', JStr ''No search results found'')],
      \<lparr>st_results = [[(''error'', JStr ''No search results found'')]],
       st_context = [(''search_result'', JNull), (''album_tracks'', JNull)],
       st_trace = [Call ''SpotifySearch'' [(''query'', JStr ''Song A'')]],
       st_dispatched = [\<lparr>a_tool_name = ''SpotifySearch'', a_params = [(''query'', JStr ''Song A'')]\<rparr>]\<rparr>)
   \<and>
   fst (execute_spotify_actions sample_lib
     (\<lambda>tr tool_name params.
        if tr = [] then Inr \<lparr>isError = False, content = [TextContent track_text_no_artist]\<rparr>
        else Inr \<lparr>isError = True, content = []\<rparr>)
     [\<lparr>a_tool_name = ''SpotifySearch'', a_params = [(''query'', JStr ''Song A'')]\<rparr>,
      \<lparr>a_tool_name = ''SpotifySearch'', a_params = [(''query'', JStr ''Song B'')]\<rparr>,
      \<lparr>a_tool_name = ''SpotifyPlayback'', a_params = [(''action'', JStr ''start'')]\<rparr>] [])
   = [(''error'', JStr ''No search results found'')]
   \<and>
   st_trace (snd (execute_spotify_actions sample_lib
     (\<lambda>tr tool_name params.
        if tr = [] then Inr \<lparr>isError = False, content = [TextContent track_text_no_artist]\<rparr>
        else Inr \<lparr>isError = True, content = []\<rparr>)
     [\<lparr>a_tool_name = ''SpotifySearch'', a_params = [(''query'', JStr ''Song A'')]\<rparr>,
      \<lparr>a_tool_name = ''SpotifySearch'', a_params = [(''query'', JStr ''Song B'')]\<rparr>,
      \<lparr>a_tool_name = ''SpotifyPlayback'', a_params = [(''action'', JStr ''start'')]\<rparr>] []))
   = [Call ''SpotifySearch'' [(''query'', JStr ''Song A'')],
      Call ''SpotifySearch'' [(''query'', JStr ''Song B'')]]"
proof -
  let ?sa = "\<lparr>a_tool_name = ''SpotifySearch'', a_params = [(''query'', JStr ''Song A'')]\<rparr>"
  let ?sb = "\<lparr>a_tool_name = ''SpotifySearch'', a_params = [(''query'', JStr ''Song B'')]\<rparr>"
  let ?pb = "\<lparr>a_tool_name = ''SpotifyPlayback'', a_params = [(''action'', JStr ''start'')]\<rparr>"
  let ?err = "[(''error'', JStr ''No search results found'')]"
  let ?failing = "answering \<lparr>isError = True, content = []\<rparr>"
  let ?ses = "\<lambda>tr tool_name params.
        if tr = [] then Inr \<lparr>isError = False, content = [TextContent track_text_no_artist]\<rparr>
        else (Inr \<lparr>isError = True, content = []\<rparr> :: exn + remote_result)"
  let ?found = "JObj [(''name'', JStr ''Song A''), (''uri'', JStr ''spotify:track:track123''),
                      (''id'', JStr ''track123''), (''artist'', JStr ''Unknown Artist''),
                      (''type'', JStr ''track'')]"
  let ?ok = "[(''action'', JStr ''search''), (''result'', ?found)]"
  let ?st1 = "\<lparr>st_results = [?ok],
               st_context = [(''search_result'', ?found), (''album_tracks'', JNull)],
               st_trace = [Call ''SpotifySearch'' [(''query'', JStr ''Song A'')]],
               st_dispatched = [?sa]\<rparr>"
  have texts: "track_text_no_artist \<noteq> ''{}''" "track_text_no_artist \<noteq> track_text_list_artist"
    "track_text_no_artist \<noteq> track_text_scalar_artist"
    by (simp_all add: track_text_list_artist_def track_text_scalar_artist_def track_text_no_artist_def)
  have first: "execute_single_action sample_lib ?failing ''SpotifySearch''
                 (frame_of ([?sa, ?pb] ! 0) (initial_state []))
     = (Inr ?err, \<lparr>f_params = [(''query'', JStr ''Song A'')],
                   f_context = [(''search_result'', JNull), (''album_tracks'', JNull)],
                   f_trace = [Call ''SpotifySearch'' [(''query'', JStr ''Song A'')]]\<rparr>)"
    by (simp add: execute_single_action_def frame_of_def initial_state_def handle_search_action_def
          error_outcome_def)
  have call1: "call_tool_with_retry ?ses ''SpotifySearch'' [(''query'', JStr ''Song A'')] MAX_RETRIES []
      = (Inr (Some \<lparr>isError = False, content = [TextContent track_text_no_artist]\<rparr>),
         [Call ''SpotifySearch'' [(''query'', JStr ''Song A'')]])"
    by (rule call_answered[of MAX_RETRIES ?ses "[]", simplified]) (simp_all add: MAX_RETRIES_def)
  have call2: "call_tool_with_retry ?ses ''SpotifySearch'' [(''query'', JStr ''Song B'')] MAX_RETRIES
         [Call ''SpotifySearch'' [(''query'', JStr ''Song A'')]]
      = (Inr (Some \<lparr>isError = True, content = []\<rparr>),
         [Call ''SpotifySearch'' [(''query'', JStr ''Song A'')],
          Call ''SpotifySearch'' [(''query'', JStr ''Song B'')]])"
    by (rule call_answered[of MAX_RETRIES ?ses "[Call ''SpotifySearch'' [(''query'', JStr ''Song A'')]]",
          simplified]) (simp_all add: MAX_RETRIES_def)
  have reach: "state_before sample_lib ?ses [?sa, ?sb, ?pb] (Suc 0) (initial_state []) = Some ?st1"
    by (simp add: exec_step_def execute_single_action_def frame_of_def initial_state_def
          handle_search_action_def call1 search_parse_def
          search_result_of_def first_artist_def loads_def sample_lib_def sample_json_loads_def texts
          py_get_def py_get_default_def py_in_def py_item_def py_first_def dict_get_default_def
          dict_get_def dict_set_def has_key_def except_def update_context_def Let_def)
  have second: "execute_single_action sample_lib ?ses ''SpotifySearch''
                 (frame_of ([?sa, ?sb, ?pb] ! Suc 0) ?st1)
     = (Inr ?err, \<lparr>f_params = [(''query'', JStr ''Song B'')],
                   f_context = [(''search_result'', ?found), (''album_tracks'', JNull)],
                   f_trace = [Call ''SpotifySearch'' [(''query'', JStr ''Song A'')],
                              Call ''SpotifySearch'' [(''query'', JStr ''Song B'')]]\<rparr>)"
    by (simp add: execute_single_action_def frame_of_def handle_search_action_def call2
          error_outcome_def)
  have a: "state_before sample_lib ?failing [?sa, ?pb] 0 (initial_state []) = Some (initial_state [])"
    by simp
  show ?thesis
    using failed_search_is_returned_at_once[OF a _ _ first]
      failed_search_is_returned_at_once[OF reach _ _ second]
    by (simp add: has_key_def initial_state_def)
qed

section \<open>Exceptions in the loop\<close>










section \<open>The parameters of an action\<close>

lemma get_info_params:
  assumes "handle_get_info_action L ses fr = (r, fr')"
  shows "f_params fr' =
     (if truthy (dict_get (f_context fr) ''search_result'')
         \<and> \<not> truthy (dict_get (f_params fr) ''item_uri'')
      then (case py_item (dict_get (f_context fr) ''search_result'') ''uri'' of
              Inl e \<Rightarrow> f_params fr
            | Inr uri \<Rightarrow> dict_set (f_params fr) ''item_uri'' uri)
      else f_params fr)"
  using assms
  by (auto simp: handle_get_info_action_def Let_def
        split: sum.splits prod.splits if_splits
        dest!: invoke_keeps)

lemma queue_params:
  assumes "handle_queue_action L ses fr = (r, fr')"
  shows "f_params fr' =
     (if truthy (dict_get (f_context fr) ''search_result'')
         \<and> \<not> truthy (dict_get (f_params fr) ''track_id'')
      then (case py_item (dict_get (f_context fr) ''search_result'') ''uri'' of
              Inl e \<Rightarrow> f_params fr
            | Inr uri \<Rightarrow> dict_set (f_params fr) ''track_id'' uri)
      else f_params fr)"
  using assms
  by (auto simp: handle_queue_action_def Let_def
        split: sum.splits prod.splits if_splits
        dest!: invoke_keeps)

lemma playback_params:
  assumes "handle_playback_action L ses fr = (r, fr')"
  shows "f_params fr' =
     (if dict_get (f_params fr) ''action'' = JStr ''start''
         \<and> truthy (dict_get (f_context fr) ''search_result'')
         \<and> \<not> truthy (dict_get (f_params fr) ''spotify_uri'')
      then (case bind (py_item (dict_get (f_context fr) ''search_result'') ''uri'') (\<lambda>uri.
                 bind (py_in '':'' uri) (\<lambda>has_colon.
                   Inr (if has_colon then uri else JStr (''spotify:track:'' @ py_str L uri)))) of
              Inl e \<Rightarrow> f_params fr
            | Inr v \<Rightarrow> dict_set (f_params fr) ''spotify_uri'' v)
      else f_params fr)"
  using assms
  by (auto simp: handle_playback_action_def Let_def bind_def
        split: sum.splits prod.splits if_splits
        dest!: invoke_keeps)


lemma dispatch_params:
  assumes "execute_single_action L ses tool_name fr = (r, fr')"
  shows "f_params fr' =
     (if tool_name = ''SpotifyGetInfo''
         \<and> truthy (dict_get (f_context fr) ''search_result'')
         \<and> \<not> truthy (dict_get (f_params fr) ''item_uri'')
      then (case py_item (dict_get (f_context fr) ''search_result'') ''uri'' of
              Inl e \<Rightarrow> f_params fr
            | Inr uri \<Rightarrow> dict_set (f_params fr) ''item_uri'' uri)
      else if tool_name = ''SpotifyPlayback''
         \<and> dict_get (f_params fr) ''action'' = JStr ''start''
         \<and> truthy (dict_get (f_context fr) ''search_result'')
         \<and> \<not> truthy (dict_get (f_params fr) ''spotify_uri'')
      then (case bind (py_item (dict_get (f_context fr) ''search_result'') ''uri'') (\<lambda>uri.
                 bind (py_in '':'' uri) (\<lambda>has_colon.
                   Inr (if has_colon then uri else JStr (''spotify:track:'' @ py_str L uri)))) of
              Inl e \<Rightarrow> f_params fr
            | Inr v \<Rightarrow> dict_set (f_params fr) ''spotify_uri'' v)
      else if tool_name = ''SpotifyQueue''
         \<and> truthy (dict_get (f_context fr) ''search_result'')
         \<and> \<not> truthy (dict_get (f_params fr) ''track_id'')
      then (case py_item (dict_get (f_context fr) ''search_result'') ''uri'' of
              Inl e \<Rightarrow> f_params fr
            | Inr uri \<Rightarrow> dict_set (f_params fr) ''track_id'' uri)
      else f_params fr)"
proof -
  consider (search) "tool_name = ''SpotifySearch''" | (info) "tool_name = ''SpotifyGetInfo''"
    | (playback) "tool_name = ''SpotifyPlayback''" | (queue) "tool_name = ''SpotifyQueue''"
    | (playlist) "tool_name = ''SpotifyPlaylist''"
    | (other) "tool_name \<noteq> ''SpotifySearch''" "tool_name \<noteq> ''SpotifyGetInfo''"
        "tool_name \<noteq> ''SpotifyPlayback''" "tool_name \<noteq> ''SpotifyQueue''"
        "tool_name \<noteq> ''SpotifyPlaylist''"
    by blast
  then show ?thesis
  proof cases
    case search
    with dispatch_search[of L ses fr r fr'] assms show ?thesis by simp
  next
    case info
    with assms have "handle_get_info_action L ses fr = (r, fr')"
      by (simp add: execute_single_action_def)
    from get_info_params[OF this] info show ?thesis by simp
  next
    case playback
    with assms have "handle_playback_action L ses fr = (r, fr')"
      by (simp add: execute_single_action_def)
    from playback_params[OF this] playback show ?thesis by simp
  next
    case queue
    with assms have "handle_queue_action L ses fr = (r, fr')"
      by (simp add: execute_single_action_def)
    from queue_params[OF this] queue show ?thesis by simp
  next
    case playlist
    with assms have "handle_playlist_action L ses fr = (r, fr')"
      by (simp add: execute_single_action_def)
    from playlist_frame[OF this] playlist show ?thesis by simp
  next
    case other
    with assms show ?thesis by (auto simp: execute_single_action_def)
  qed
qed

lemma dispatch_params_entry:
  assumes "execute_single_action L ses tool_name fr = (r, fr')"
  shows "f_params fr' = f_params fr
     \<or> (\<exists>k v. (tool_name, k) \<in> {(''SpotifyGetInfo'', ''item_uri''),
                                (''SpotifyPlayback'', ''spotify_uri''),
                                (''SpotifyQueue'', ''track_id'')}
              \<and> \<not> truthy (dict_get (f_params fr) k)
              \<and> f_params fr' = dict_set (f_params fr) k v)"
proof -
  have entry: "p = q \<or> (\<exists>v. p = dict_set q k v)"
    if "p = (case m of Inl e \<Rightarrow> q | Inr v \<Rightarrow> dict_set q k v)"
    for p q :: dict and k and m :: "exn + json"
    using that by (cases m) auto
  note eq = dispatch_params[OF assms]
  consider (info) "tool_name = ''SpotifyGetInfo''"
      "truthy (dict_get (f_context fr) ''search_result'')"
      "\<not> truthy (dict_get (f_params fr) ''item_uri'')"
    | (playback) "tool_name = ''SpotifyPlayback''"
      "dict_get (f_params fr) ''action'' = JStr ''start''"
      "truthy (dict_get (f_context fr) ''search_result'')"
      "\<not> truthy (dict_get (f_params fr) ''spotify_uri'')"
    | (queue) "tool_name = ''SpotifyQueue''"
      "truthy (dict_get (f_context fr) ''search_result'')"
      "\<not> truthy (dict_get (f_params fr) ''track_id'')"
    | (none) "\<not> (tool_name = ''SpotifyGetInfo''
         \<and> truthy (dict_get (f_context fr) ''search_result'')
         \<and> \<not> truthy (dict_get (f_params fr) ''item_uri''))"
      "\<not> (tool_name = ''SpotifyPlayback''
         \<and> dict_get (f_params fr) ''action'' = JStr ''start''
         \<and> truthy (dict_get (f_context fr) ''search_result'')
         \<and> \<not> truthy (dict_get (f_params fr) ''spotify_uri''))"
      "\<not> (tool_name = ''SpotifyQueue''
         \<and> truthy (dict_get (f_context fr) ''search_result'')
         \<and> \<not> truthy (dict_get (f_params fr) ''track_id''))"
    by blast
  then show ?thesis
  proof cases
    case info
    with eq have "f_params fr' =
        (case py_item (dict_get (f_context fr) ''search_result'') ''uri'' of
              Inl e \<Rightarrow> f_params fr
            | Inr uri \<Rightarrow> dict_set (f_params fr) ''item_uri'' uri)"
      by simp
    from entry[OF this] info show ?thesis by auto
  next
    case playback
    with eq have "f_params fr' =
        (case bind (py_item (dict_get (f_context fr) ''search_result'') ''uri'') (\<lambda>uri.
                 bind (py_in '':'' uri) (\<lambda>has_colon.
                   Inr (if has_colon then uri else JStr (''spotify:track:'' @ py_str L uri)))) of
              Inl e \<Rightarrow> f_params fr
            | Inr v \<Rightarrow> dict_set (f_params fr) ''spotify_uri'' v)"
      by simp
    from entry[OF this] playback show ?thesis by auto
  next
    case queue
    with eq have "f_params fr' =
        (case py_item (dict_get (f_context fr) ''search_result'') ''uri'' of
              Inl e \<Rightarrow> f_params fr
            | Inr uri \<Rightarrow> dict_set (f_params fr) ''track_id'' uri)"
      using queue by auto
    from entry[OF this] queue show ?thesis by auto
  next
    case none
    with eq have "f_params fr' = f_params fr" by presburger
    then show ?thesis by simp
  qed
qed

lemma exec_step_appends:
  "st_dispatched (state_of (exec_step L ses act st)) =
     st_dispatched st
       @ [act\<lparr>a_params :=
                f_params (snd (execute_single_action L ses (a_tool_name act) (frame_of act st)))\<rparr>]"
  by (simp add: exec_step_def Let_def split: prod.splits sum.splits)

lemma exec_loop_dispatched:
  fixes R :: "action \<Rightarrow> action \<Rightarrow> bool"
  defines "R \<equiv> \<lambda>a b. a_tool_name b = a_tool_name a
     \<and> (a_params b = a_params a
        \<or> (\<exists>k v. (a_tool_name a, k) \<in> {(''SpotifyGetInfo'', ''item_uri''),
                                       (''SpotifyPlayback'', ''spotify_uri''),
                                       (''SpotifyQueue'', ''track_id'')}
                 \<and> \<not> truthy (dict_get (a_params a) k)
                 \<and> a_params b = dict_set (a_params a) k v))"
  assumes "exec_loop L ses acts st = (r, st')"
  shows "\<exists>ds. st_dispatched st' = st_dispatched st @ ds \<and> length ds \<le> length acts
            \<and> list_all2 R (take (length ds) acts) ds"
  using assms(2)
proof (induction acts arbitrary: st)
  case Nil
  then show ?case by simp
next
  case (Cons act rest)
  let ?b = "act\<lparr>a_params :=
                f_params (snd (execute_single_action L ses (a_tool_name act) (frame_of act st)))\<rparr>"
  have rel: "R act ?b"
    using dispatch_params_entry[of L ses "a_tool_name act" "frame_of act st"
            "fst (execute_single_action L ses (a_tool_name act) (frame_of act st))"
            "snd (execute_single_action L ses (a_tool_name act) (frame_of act st))"]
    by (simp add: R_def frame_of_def)
  have app: "st_dispatched (state_of (exec_step L ses act st)) = st_dispatched st @ [?b]"
    by (rule exec_step_appends)
  show ?case
  proof (cases "exec_step L ses act st")
    case (Raised e st1)
    with Cons.prems app have "st_dispatched st' = st_dispatched st @ [?b]" by simp
    with rel show ?thesis by (intro exI[of _ "[?b]"]) simp
  next
    case (Stopped result st1)
    with Cons.prems app have "st_dispatched st' = st_dispatched st @ [?b]" by simp
    with rel show ?thesis by (intro exI[of _ "[?b]"]) simp
  next
    case (Next st1)
    with Cons.prems have "exec_loop L ses rest st1 = (r, st')" by simp
    from Cons.IH[OF this] obtain ds where ds: "st_dispatched st' = st_dispatched st1 @ ds"
      "length ds \<le> length rest" "list_all2 R (take (length ds) rest) ds"
      by blast
    from Next app have "st_dispatched st1 = st_dispatched st @ [?b]" by simp
    with ds rel show ?thesis by (intro exI[of _ "?b # ds"]) simp
  qed
qed

lemma actions_after_rel:
  fixes R :: "action \<Rightarrow> action \<Rightarrow> bool"
  defines "R \<equiv> \<lambda>a b. a_tool_name b = a_tool_name a
     \<and> (a_params b = a_params a
        \<or> (\<exists>k v. (a_tool_name a, k) \<in> {(''SpotifyGetInfo'', ''item_uri''),
                                       (''SpotifyPlayback'', ''spotify_uri''),
                                       (''SpotifyQueue'', ''track_id'')}
                 \<and> \<not> truthy (dict_get (a_params a) k)
                 \<and> a_params b = dict_set (a_params a) k v))"
  shows "list_all2 R actions (actions_after actions (snd (execute_spotify_actions L ses actions tr)))"
proof -
  obtain r st' where run: "exec_loop L ses actions (initial_state tr) = (r, st')"
    by (cases "exec_loop L ses actions (initial_state tr)")
  from exec_loop_dispatched[OF run]
  obtain ds where ds: "st_dispatched st' = ds" "length ds \<le> length actions"
    "list_all2 R (take (length ds) actions) ds"
    by (auto simp add: initial_state_def R_def)
  have final: "snd (execute_spotify_actions L ses actions tr) = st'"
    using run by (simp add: execute_spotify_actions_def split: sum.splits)
  have refl: "list_all2 R (drop (length ds) actions) (drop (length ds) actions)"
    by (simp add: list_all2_same R_def)
  have "list_all2 R (take (length ds) actions @ drop (length ds) actions)
          (ds @ drop (length ds) actions)"
    using ds(3) refl by (rule list_all2_appendI)
  then show ?thesis
    by (simp add: actions_after_def final ds(1))
qed


text \<open>
  Claim C8, as the code has it. The parameters of an action are changed in at most one
  entry, by the action's own step. The parameters a step leaves are: for a
  \<^verbatim>\<open>SpotifyGetInfo\<close> step whose \<^verbatim>\<open>item_uri\<close> is absent or false in Python's sense, run
  while the context holds a search result, the parameters with \<^verbatim>\<open>item_uri\<close> set to the
  result's \<^verbatim>\<open>uri\<close>; for a \<^verbatim>\<open>SpotifyPlayback\<close> step with action \<^verbatim>\<open>start\<close> whose
  \<^verbatim>\<open>spotify_uri\<close> is absent or false, run while the context holds a search result, the
  parameters with \<^verbatim>\<open>spotify_uri\<close> set to the result's \<^verbatim>\<open>uri\<close>, prefixed with
  \<^verbatim>\<open>spotify:track:\<close> when it contains no colon; for a \<^verbatim>\<open>SpotifyQueue\<close> step whose
  \<^verbatim>\<open>track_id\<close> is absent or false, run while the context holds a search result, the
  parameters with \<^verbatim>\<open>track_id\<close> set to the result's \<^verbatim>\<open>uri\<close>; in these three cases the
  parameters as they were if reading the \<^verbatim>\<open>uri\<close> raises; and in every other case the
  parameters as they were. After a run, every action of the list has its tool name and
  either its parameters as they were or, for the three kinds above, its parameters with
  the one entry set that was absent or false.
\<close>

theorem parameters_changed_only_by_defaulted_uri:
  "f_params (snd (execute_single_action L ses tool_name fr)) =
     (if tool_name = ''SpotifyGetInfo''
         \<and> truthy (dict_get (f_context fr) ''search_result'')
         \<and> \<not> truthy (dict_get (f_params fr) ''item_uri'')
      then (case py_item (dict_get (f_context fr) ''search_result'') ''uri'' of
              Inl e \<Rightarrow> f_params fr
            | Inr uri \<Rightarrow> dict_set (f_params fr) ''item_uri'' uri)
      else if tool_name = ''SpotifyPlayback''
         \<and> dict_get (f_params fr) ''action'' = JStr ''start''
         \<and> truthy (dict_get (f_context fr) ''search_result'')
         \<and> \<not> truthy (dict_get (f_params fr) ''spotify_uri'')
      then (case bind (py_item (dict_get (f_context fr) ''search_result'') ''uri'') (\<lambda>uri.
                 bind (py_in '':'' uri) (\<lambda>has_colon.
                   Inr (if has_colon then uri else JStr (''spotify:track:'' @ py_str L uri)))) of
              Inl e \<Rightarrow> f_params fr
            | Inr v \<Rightarrow> dict_set (f_params fr) ''spotify_uri'' v)
      else if tool_name = ''SpotifyQueue''
         \<and> truthy (dict_get (f_context fr) ''search_result'')
         \<and> \<not> truthy (dict_get (f_params fr) ''track_id'')
      then (case py_item (dict_get (f_context fr) ''search_result'') ''uri'' of
              Inl e \<Rightarrow> f_params fr
            | Inr uri \<Rightarrow> dict_set (f_params fr) ''track_id'' uri)
      else f_params fr)
   \<and>
   list_all2
     (\<lambda>a b. a_tool_name b = a_tool_name a
        \<and> (a_params b = a_params a
           \<or> (\<exists>k v. (a_tool_name a, k) \<in> {(''SpotifyGetInfo'', ''item_uri''),
                                          (''SpotifyPlayback'', ''spotify_uri''),
                                          (''SpotifyQueue'', ''track_id'')}
                    \<and> \<not> truthy (dict_get (a_params a) k)
                    \<and> a_params b = dict_set (a_params a) k v)))
     actions (actions_after actions (snd (execute_spotify_actions L ses actions tr)))"
proof -
  have "execute_single_action L ses tool_name fr
          = (fst (execute_single_action L ses tool_name fr),
             snd (execute_single_action L ses tool_name fr))"
    by simp
  from dispatch_params[OF this] actions_after_rel[of actions L ses tr]
  show ?thesis by (rule conjI)
qed

theorem parameters_changed_only_by_defaulted_uri_witness:
  "f_params (snd (execute_single_action sample_lib
      (answering \<lparr>isError = False, content = [TextContent track_text_list_artist]\<rparr>)
      ''SpotifyQueue''
      \<lparr>f_params = [],
       f_context = [(''search_result'',
                       JObj [(''name'', JStr ''Song A''), (''uri'', JStr ''spotify:track:track123''),
                             (''id'', JStr ''track123''), (''artist'', JStr ''Artist X''),
                             (''type'', JStr ''track'')]),
                    (''album_tracks'', JNull)],
       f_trace = []\<rparr>))
     = [(''track_id'', JStr ''spotify:track:track123'')]
   \<and>
   f_params (snd (execute_single_action sample_lib
      (answering \<lparr>isError = False, content = [TextContent track_text_list_artist]\<rparr>)
      ''SpotifyQueue''
      \<lparr>f_params = [(''track_id'', JStr ''spotify:track:track456'')],
       f_context = [(''search_result'',
                       JObj [(''name'', JStr ''Song A''), (''uri'', JStr ''spotify:track:track123''),
                             (''id'', JStr ''track123''), (''artist'', JStr ''Artist X''),
                             (''type'', JStr ''track'')]),
                    (''album_tracks'', JNull)],
       f_trace = []\<rparr>))
     = [(''track_id'', JStr ''spotify:track:track456'')]
   \<and>
   actions_after
     [\<lparr>a_tool_name = ''SpotifySearch'',
       a_params = [(''query'', JStr ''Song A''), (''qtype'', JStr ''track'')]\<rparr>,
      \<lparr>a_tool_name = ''SpotifyQueue'', a_params = []\<rparr>]
     (snd (execute_spotify_actions sample_lib
        (answering \<lparr>isError = False, content = [TextContent track_text_list_artist]\<rparr>)
        [\<lparr>a_tool_name = ''SpotifySearch'',
          a_params = [(''query'', JStr ''Song A''), (''qtype'', JStr ''track'')]\<rparr>,
         \<lparr>a_tool_name = ''SpotifyQueue'', a_params = []\<rparr>] []))
   = [\<lparr>a_tool_name = ''SpotifySearch'',
       a_params = [(''query'', JStr ''Song A''), (''qtype'', JStr ''track'')]\<rparr>,
      \<lparr>a_tool_name = ''SpotifyQueue'',
       a_params = [(''track_id'', JStr ''spotify:track:track123'')]\<rparr>]"
proof -
  let ?ses = "answering \<lparr>isError = False, content = [TextContent track_text_list_artist]\<rparr>"
  let ?sa = "\<lparr>a_tool_name = ''SpotifySearch'',
              a_params = [(''query'', JStr ''Song A''), (''qtype'', JStr ''track'')]\<rparr>"
  let ?qu = "\<lparr>a_tool_name = ''SpotifyQueue'', a_params = []\<rparr>"
  let ?qu' = "\<lparr>a_tool_name = ''SpotifyQueue'',
               a_params = [(''track_id'', JStr ''spotify:track:track123'')]\<rparr>"
  let ?found = "JObj [(''name'', JStr ''Song A''), (''uri'', JStr ''spotify:track:track123''),
                      (''id'', JStr ''track123''), (''artist'', JStr ''Artist X''),
                      (''type'', JStr ''track'')]"
  let ?ctx = "[(''search_result'', ?found), (''album_tracks'', JNull)]"
  let ?ok = "[(''action'', JStr ''search''), (''result'', ?found)]"
  let ?queued = "[(''action'', JStr ''queue''),
                  (''message'', JStr ''Added track Song A by Artist X to queue''), (''item'', ?found)]"
  let ?c1 = "Call ''SpotifySearch'' [(''query'', JStr ''Song A''), (''qtype'', JStr ''track'')]"
  let ?c2 = "Call ''SpotifyQueue'' [(''track_id'', JStr ''spotify:track:track123'')]"
  let ?st1 = "\<lparr>st_results = [?ok], st_context = ?ctx, st_trace = [?c1], st_dispatched = [?sa]\<rparr>"
  let ?st2 = "\<lparr>st_results = [?ok, ?queued], st_context = ?ctx, st_trace = [?c1, ?c2],
               st_dispatched = [?sa, ?qu']\<rparr>"
  have texts: "track_text_list_artist \<noteq> ''{}''"
    by (simp add: track_text_list_artist_def)
  have step1: "exec_step sample_lib ?ses ?sa (initial_state []) = Next ?st1"
    by (simp add: exec_step_def execute_single_action_def frame_of_def initial_state_def
          handle_search_action_def search_parse_def
          search_result_of_def first_artist_def loads_def sample_lib_def sample_json_loads_def texts
          py_get_def py_get_default_def py_in_def py_item_def py_first_def dict_get_default_def
          dict_get_def dict_set_def has_key_def except_def update_context_def Let_def)
  have step2: "exec_step sample_lib ?ses ?qu ?st1 = Next ?st2"
    by (simp add: exec_step_def execute_single_action_def frame_of_def
          handle_queue_action_def queue_outcome_def item_type_of_def
          py_item_def dict_get_def dict_set_def has_key_def update_context_def Let_def)
  have fmt: "format_final_response [?ok, ?queued]
      = Inr [(''message'', JStr ''Added track Song A by Artist X to queue''),
             (''details'', JObj ?queued)]"
    by (simp add: format_final_response_def has_key_def dict_get_default_def)
  have run: "snd (execute_spotify_actions sample_lib ?ses [?sa, ?qu] []) = ?st2"
    by (simp add: execute_spotify_actions_def step1 step2 fmt)
  show ?thesis
    using parameters_changed_only_by_defaulted_uri
            [of sample_lib ?ses "''SpotifyQueue''"
                "\<lparr>f_params = [], f_context = ?ctx, f_trace = []\<rparr>" "[?sa, ?qu]" "[]"]
          parameters_changed_only_by_defaulted_uri
            [of sample_lib ?ses "''SpotifyQueue''"
                "\<lparr>f_params = [(''track_id'', JStr ''spotify:track:track456'')],
                  f_context = ?ctx, f_trace = []\<rparr>" "[?sa, ?qu]" "[]"]
    by (simp add: dict_get_def dict_set_def py_item_def run actions_after_def)
qed

text \<open>
  Claim C8 as worded fails: a search followed by a playback step with action \<^verbatim>\<open>start\<close>
  and no \<^verbatim>\<open>spotify_uri\<close> leaves the playback action's parameters with a new entry
  \<^verbatim>\<open>spotify_uri\<close>, written by \<^verbatim>\<open>params["spotify_uri"] = search_result["uri"]\<close>. Compared
  before and after the run, the caller's list of actions is not equal.
\<close>

theorem parameters_changed_counterexample:
  "actions_after
     [\<lparr>a_tool_name = ''SpotifySearch'',
       a_params = [(''query'', JStr ''Song A''), (''qtype'', JStr ''track'')]\<rparr>,
      \<lparr>a_tool_name = ''SpotifyPlayback'', a_params = [(''action'', JStr ''start'')]\<rparr>]
     (snd (execute_spotify_actions sample_lib
        (answering \<lparr>isError = False, content = [TextContent track_text_scalar_artist]\<rparr>)
        [\<lparr>a_tool_name = ''SpotifySearch'',
          a_params = [(''query'', JStr ''Song A''), (''qtype'', JStr ''track'')]\<rparr>,
         \<lparr>a_tool_name = ''SpotifyPlayback'', a_params = [(''action'', JStr ''start'')]\<rparr>] []))
   = [\<lparr>a_tool_name = ''SpotifySearch'',
       a_params = [(''query'', JStr ''Song A''), (''qtype'', JStr ''track'')]\<rparr>,
      \<lparr>a_tool_name = ''SpotifyPlayback'',
       a_params = [(''action'', JStr ''start''),
                   (''spotify_uri'', JStr ''spotify:track:track123'')]\<rparr>]
   \<and>
   fst (execute_spotify_actions sample_lib
        (answering \<lparr>isError = False, content = [TextContent track_text_scalar_artist]\<rparr>)
        [\<lparr>a_tool_name = ''SpotifySearch'',
          a_params = [(''query'', JStr ''Song A''), (''qtype'', JStr ''track'')]\<rparr>,
         \<lparr>a_tool_name = ''SpotifyPlayback'', a_params = [(''action'', JStr ''start'')]\<rparr>] [])
   = [(''message'', JStr ''Playing track Song A by Artist X''),
      (''details'',
         JObj [(''action'', JStr ''playback''), (''type'', JStr ''start''),
               (''message'', JStr ''Playing track Song A by Artist X''),
               (''item'', JObj [(''name'', JStr ''Song A''), (''uri'', JStr ''spotify:track:track123''),
                                (''id'', JStr ''track123''), (''artist'', JStr ''Artist X''),
                                (''type'', JStr ''track'')])])]"
proof -
  let ?ses = "answering \<lparr>isError = False, content = [TextContent track_text_scalar_artist]\<rparr>"
  let ?sa = "\<lparr>a_tool_name = ''SpotifySearch'',
              a_params = [(''query'', JStr ''Song A''), (''qtype'', JStr ''track'')]\<rparr>"
  let ?pb = "\<lparr>a_tool_name = ''SpotifyPlayback'', a_params = [(''action'', JStr ''start'')]\<rparr>"
  let ?pb' = "\<lparr>a_tool_name = ''SpotifyPlayback'',
               a_params = [(''action'', JStr ''start''),
                           (''spotify_uri'', JStr ''spotify:track:track123'')]\<rparr>"
  let ?found = "JObj [(''name'', JStr ''Song A''), (''uri'', JStr ''spotify:track:track123''),
                      (''id'', JStr ''track123''), (''artist'', JStr ''Artist X''),
                      (''type'', JStr ''track'')]"
  let ?ok = "[(''action'', JStr ''search''), (''result'', ?found)]"
  let ?played = "[(''action'', JStr ''playback''), (''type'', JStr ''start''),
                  (''message'', JStr ''Playing track Song A by Artist X''), (''item'', ?found)]"
  let ?c1 = "Call ''SpotifySearch'' [(''query'', JStr ''Song A''), (''qtype'', JStr ''track'')]"
  let ?c2 = "Call ''SpotifyPlayback'' [(''action'', JStr ''start''),
                                        (''spotify_uri'', JStr ''spotify:track:track123'')]"
  let ?st1 = "\<lparr>st_results = [?ok],
               st_context = [(''search_result'', ?found), (''album_tracks'', JNull)],
               st_trace = [?c1], st_dispatched = [?sa]\<rparr>"
  let ?st2 = "\<lparr>st_results = [?ok, ?played],
               st_context = [(''search_result'', ?found), (''album_tracks'', JNull)],
               st_trace = [?c1, ?c2], st_dispatched = [?sa, ?pb']\<rparr>"
  have texts: "track_text_scalar_artist \<noteq> ''{}''" "track_text_scalar_artist \<noteq> track_text_list_artist"
    by (simp_all add: track_text_list_artist_def track_text_scalar_artist_def)
  have step1: "exec_step sample_lib ?ses ?sa (initial_state []) = Next ?st1"
    by (simp add: exec_step_def execute_single_action_def frame_of_def initial_state_def
          handle_search_action_def search_parse_def
          search_result_of_def first_artist_def loads_def sample_lib_def sample_json_loads_def texts
          py_get_def py_get_default_def py_in_def py_item_def py_first_def dict_get_default_def
          dict_get_def dict_set_def has_key_def except_def update_context_def Let_def)
  have step2: "exec_step sample_lib ?ses ?pb ?st1 = Next ?st2"
    by (simp add: exec_step_def execute_single_action_def frame_of_def
          handle_playback_action_def playback_outcome_def item_type_of_def
          py_in_def py_item_def dict_get_def dict_set_def has_key_def update_context_def Let_def)
  have fmt: "format_final_response [?ok, ?played]
      = Inr [(''message'', JStr ''Playing track Song A by Artist X''), (''details'', JObj ?played)]"
    by (simp add: format_final_response_def has_key_def dict_get_default_def)
  show ?thesis
    by (simp add: execute_spotify_actions_def actions_after_def step1 step2 fmt)
qed

end
